theory Spec2Isabelle
  imports
    Complex_Main
    "HOL-Library.Char_ord"
    "HOL-Library.List_Lexorder"
    "HOL-Library.Product_Lexorder"
    "HOL-Library.Sublist"
    "HOL-Library.Log_Nat"
    "HOL-Library.Word"
begin

section \<open>The demand table\<close>

text \<open>
  The program reads one spreadsheet sheet into a pandas data frame and derives every view
  from it. A data frame is modelled as the list of its rows, in index order; a row is a
  record with one field per column the derived views read.

  The quantity columns hold whole numbers and have the dtype \<open>int64\<close>: see the next
  section. A delay cell holds either a whole number of days or the text \<open>'late'\<close>,
  which the source compares against with \<open>== 'late'\<close>. Columns that the source tests for missing
  values (\<open>supplier\<close>, \<open>product\<close>, the two dates) are optional; every other cell is taken
  to hold a value.
\<close>

section \<open>Machine numbers\<close>

text \<open>
  A cell of an \<open>int64\<close> column is a 64-bit two's-complement integer. The sum of a column
  is numpy's: it wraps around modulo \<open>2^64\<close>, which is the addition of the word type;
  comparisons with 0 read the signed value (\<open>sint\<close>).
\<close>

type_synonym int64 = "64 word"

text \<open>
  Dividing one such sum by another is numpy's true division: both operands are converted
  to \<open>float64\<close>, and the quotient, like the product with 100 that follows, is rounded to
  \<open>float64\<close>. A finite \<open>float64\<close> value is represented by the rational number it
  denotes. \<open>round_to_double\<close> rounds a rational to the nearest number with a significand
  of 53 bits, ties to the even significand. Every value that the views compute this way
  is 0 or has a magnitude between \<open>2^-63\<close> and \<open>2^70\<close>, inside the normal range of
  \<open>float64\<close>, so neither overflow, underflow nor NaN arises.

  A quantity column with a fractional or an empty cell has the dtype \<open>float64\<close>; its sum
  depends on the order in which numpy adds the cells, and such tables are not modelled.
\<close>

definition round_half_even :: "rat \<Rightarrow> int" where
  "round_half_even q =
     (let f = \<lfloor>q\<rfloor>; d = q - of_int f
      in if d < 1 / 2 then f else if d > 1 / 2 then f + 1 else if even f then f else f + 1)"

text \<open>The exponent \<open>e\<close> with \<open>2^e \<le> |x| < 2^(e+1)\<close>, for \<open>x\<close> other than 0.\<close>

definition binary_exponent :: "rat \<Rightarrow> int" where
  "binary_exponent x =
     (let (p, q) = quotient_of \<bar>x\<bar>; d = bitlen p - bitlen q
      in if of_int q * (2::rat) powi d \<le> of_int p then d else d - 1)"

definition round_to_double :: "rat \<Rightarrow> rat" where
  "round_to_double x =
     (if x = 0 then 0
      else let e = binary_exponent x - 52
           in of_int (round_half_even (x / 2 powi e)) * 2 powi e)"

definition to_double :: "int64 \<Rightarrow> rat" where
  "to_double w = round_to_double (of_int (sint w))"

definition float_div :: "rat \<Rightarrow> rat \<Rightarrow> rat" where
  "float_div x y = round_to_double (x / y)"

definition float_mul :: "rat \<Rightarrow> rat \<Rightarrow> rat" where
  "float_mul x y = round_to_double (x * y)"

text \<open>\<open>allocated / required * 100\<close> on two \<open>int64\<close> sums.\<close>

definition percentage :: "int64 \<Rightarrow> int64 \<Rightarrow> rat" where
  "percentage allocated required = float_mul (float_div (to_double allocated) (to_double required)) 100"

section \<open>Rows\<close>

datatype delay_cell = Days int | Late

record row =
  sec_order :: string
  sec_number :: string
  product_col :: "string option"
  item :: string
  description :: string
  req_qty :: int64
  allocated_qty :: int64
  balance :: int64
  supply_type :: string
  source :: string
  locater :: string
  supplier :: "string option"
  delay :: delay_cell
  sec_delivery :: "int option"
  roh_delivery :: "int option"

type_synonym frame = "row list"

text \<open>The exceptions a view can end in.\<close>

datatype error = TypeError | KeyError | UnboundLocalError

section \<open>The pandas operations the views use\<close>

text \<open>\<open>series != 0\<close> on the delay column: the text \<open>'late'\<close> is different from 0.\<close>

fun delay_ne_zero :: "delay_cell \<Rightarrow> bool" where
  "delay_ne_zero (Days d) = (d \<noteq> 0)"
| "delay_ne_zero Late = True"

text \<open>
  Python's \<open>>=\<close> on two cells of an object column: two numbers and two strings compare,
  a number and a string raise \<open>TypeError\<close>.
\<close>

fun delay_ge :: "delay_cell \<Rightarrow> delay_cell \<Rightarrow> error + bool" where
  "delay_ge (Days a) (Days b) = Inr (a \<ge> b)"
| "delay_ge Late Late = Inr True"
| "delay_ge (Days a) Late = Inl TypeError"
| "delay_ge Late (Days b) = Inl TypeError"

text \<open>
  \<open>Series.max()\<close> of a non-empty column, given as its first cell and the rest: the
  running maximum is compared with each further cell in turn.
\<close>

fun series_max :: "delay_cell \<Rightarrow> delay_cell list \<Rightarrow> error + delay_cell" where
  "series_max m [] = Inr m"
| "series_max m (x # xs) =
     (case delay_ge m x of
        Inl e \<Rightarrow> Inl e
      | Inr b \<Rightarrow> series_max (if b then m else x) xs)"

text \<open>\<open>Series.min()\<close> of a date column: missing dates are skipped.\<close>

definition series_min_date :: "int option list \<Rightarrow> int option" where
  "series_min_date ds =
     (case List.map_filter (\<lambda>d. d) ds of
        [] \<Rightarrow> None
      | x # xs \<Rightarrow> Some (fold min xs x))"

text \<open>\<open>Series.unique()\<close>: the distinct values in order of first appearance.\<close>

definition unique :: "'a list \<Rightarrow> 'a list" where
  "unique xs = fold (\<lambda>x acc. if x \<in> set acc then acc else acc @ [x]) xs []"

text \<open>\<open>groupby(key)\<close>: one group per distinct key, the keys in ascending order.\<close>

definition group_keys :: "(row \<Rightarrow> 'k::linorder) \<Rightarrow> frame \<Rightarrow> 'k list" where
  "group_keys key rows = sort (remdups (map key rows))"

definition groupby_sum :: "(row \<Rightarrow> 'k::linorder) \<Rightarrow> (row \<Rightarrow> int64) \<Rightarrow> frame \<Rightarrow> ('k \<times> int64) list" where
  "groupby_sum key col rows =
     map (\<lambda>k. (k, sum_list (map col (filter (\<lambda>r. key r = k) rows)))) (group_keys key rows)"

section \<open>Project status\<close>

datatype status_label = Ready | Critical | Partial

record project_status =
  status :: status_label
  status_class :: string
  total_items :: nat
  ready_items :: nat
  partial_items :: nat
  missing_items :: nat
  total_req :: int64
  total_allocated :: int64
  total_balance :: int64
  fulfillment_pct :: rat
  max_delay :: delay_cell
  supply_breakdown :: "(string \<times> int64) list"
  status_sec_delivery :: "int option"
  status_roh_delivery :: "int option"

text \<open>
  \<open>calculate_project_status(df, project)\<close> (source lines 78 to 128). The result is
  \<open>Inr None\<close> where the source returns \<open>None\<close> (no row of the project), \<open>Inl\<close> where
  computing the maximum delay raises, and the dictionary otherwise. The maximum delay is
  \<open>delayed_items['delay'].max() if not delayed_items.empty else 0\<close>, and the status is
  chosen by the \<open>if\<close>/\<open>elif\<close>/\<open>else\<close> of lines 103 to 111.
\<close>

definition project_rows :: "frame \<Rightarrow> string \<Rightarrow> frame" where
  "project_rows df project = filter (\<lambda>r. sec_order r = project) df"

definition project_max_delay :: "frame \<Rightarrow> error + delay_cell" where
  "project_max_delay proj_data =
     (case map delay (filter (\<lambda>r. delay_ne_zero (delay r)) proj_data) of
        [] \<Rightarrow> Inr (Days 0)
      | d # ds \<Rightarrow> series_max d ds)"

definition overall_status :: "int64 \<Rightarrow> nat \<Rightarrow> delay_cell \<Rightarrow> status_label \<times> string" where
  "overall_status total_bal missing mx =
     (if total_bal = 0 then (Ready, ''status-ready'')
      else if missing > 0 \<or> mx = Late then (Critical, ''status-critical'')
      else (Partial, ''status-partial''))"

definition calculate_project_status :: "frame \<Rightarrow> string \<Rightarrow> error + project_status option" where
  "calculate_project_status df project =
     (let proj_data = project_rows df project in
      if proj_data = [] then Inr None
      else
        let n_items = length proj_data;
            req = sum_list (map req_qty proj_data);
            allocated = sum_list (map allocated_qty proj_data);
            bal = sum_list (map balance proj_data);
            ready = length (filter (\<lambda>r. balance r = 0) proj_data);
            partial = length (filter (\<lambda>r. sint (balance r) > 0 \<and> sint (allocated_qty r) > 0) proj_data);
            missing = length (filter (\<lambda>r. allocated_qty r = 0) proj_data)
        in case project_max_delay proj_data of
             Inl e \<Rightarrow> Inl e
           | Inr mx \<Rightarrow>
               let breakdown = groupby_sum supply_type allocated_qty proj_data;
                   (st, cls) = overall_status bal missing mx
               in Inr (Some \<lparr>
                    status = st,
                    status_class = cls,
                    total_items = n_items,
                    ready_items = ready,
                    partial_items = partial,
                    missing_items = missing,
                    total_req = req,
                    total_allocated = allocated,
                    total_balance = bal,
                    fulfillment_pct = (if sint req > 0 then percentage allocated req else 0),
                    max_delay = mx,
                    supply_breakdown = breakdown,
                    status_sec_delivery = series_min_date (map sec_delivery proj_data),
                    status_roh_delivery = series_min_date (map roh_delivery proj_data) \<rparr>))"

section \<open>Material inquiry\<close>

text \<open>
  A blocking-issue message, with the quantity the source formats into its text:
  \<open>"... units stuck in QC"\<close>, \<open>"... units in GR process"\<close>,
  \<open>"... units on delayed POs"\<close>, \<open>"... units need PR creation"\<close>.
\<close>

datatype issue = StuckInQC int64 | InGRProcess int64 | OnDelayedPOs int64 | NeedPRCreation int64

record inquiry =
  inq_description :: string
  inq_total_req :: int64
  inq_total_allocated :: int64
  inq_total_balance :: int64
  allocation_by_project :: "(string \<times> int64 \<times> int64 \<times> int64) list"
  supply_sources :: "((string \<times> string) \<times> int64) list"
  blocking_issues :: "issue list"
  item_data :: frame

text \<open>
  \<open>material_inquiry(df, item_code)\<close> (source lines 130 to 181). Its blocking issues are
  the four \<open>if not ... .empty: blocking_issues.append(...)\<close> statements of lines 156 to
  170, in the source's order.
\<close>

definition blocking_issues_of :: "frame \<Rightarrow> issue list" where
  "blocking_issues_of rows =
     (let qc_rows = filter (\<lambda>r. supply_type r = ''QC'') rows;
          gr_rows = filter (\<lambda>r. supply_type r = ''GR_in_process'') rows;
          po_late = filter (\<lambda>r. supply_type r = ''PO'' \<and> delay r = Late) rows;
          pr_rows = filter (\<lambda>r. supply_type r = ''PR'') rows
      in (if qc_rows \<noteq> [] then [StuckInQC (sum_list (map allocated_qty qc_rows))] else [])
       @ (if gr_rows \<noteq> [] then [InGRProcess (sum_list (map allocated_qty gr_rows))] else [])
       @ (if po_late \<noteq> [] then [OnDelayedPOs (sum_list (map allocated_qty po_late))] else [])
       @ (if pr_rows \<noteq> [] then [NeedPRCreation (sum_list (map balance pr_rows))] else []))"

definition material_inquiry :: "frame \<Rightarrow> string \<Rightarrow> inquiry option" where
  "material_inquiry df item_code =
     (case filter (\<lambda>r. item r = item_code) df of
        [] \<Rightarrow> None
      | r0 # rest \<Rightarrow>
          let rows = r0 # rest in
          Some \<lparr>
            inq_description = description r0,
            inq_total_req = sum_list (map req_qty rows),
            inq_total_allocated = sum_list (map allocated_qty rows),
            inq_total_balance = sum_list (map balance rows),
            allocation_by_project =
              map (\<lambda>k. let g = filter (\<lambda>r. sec_order r = k) rows
                       in (k, sum_list (map req_qty g), sum_list (map allocated_qty g),
                           sum_list (map balance g)))
                  (group_keys sec_order rows),
            supply_sources = groupby_sum (\<lambda>r. (supply_type r, source r)) allocated_qty rows,
            blocking_issues = blocking_issues_of rows,
            item_data = rows \<rparr>)"

section \<open>Supplier performance\<close>

record supplier_stat =
  stat_supplier :: string
  delayed_items :: nat
  avg_delay_days :: rat
  max_delay_days :: int
  total_qty_delayed :: int64

text \<open>
  The numeric aggregations \<open>mean\<close> and \<open>max\<close> of a delay column need numbers: a
  \<open>'late'\<close> cell makes the aggregation raise \<open>TypeError\<close>.
\<close>

fun numeric_delays :: "delay_cell list \<Rightarrow> error + int list" where
  "numeric_delays [] = Inr []"
| "numeric_delays (Late # ds) = Inl TypeError"
| "numeric_delays (Days d # ds) =
     (case numeric_delays ds of Inl e \<Rightarrow> Inl e | Inr xs \<Rightarrow> Inr (d # xs))"

text \<open>
  The aggregate row of one supplier's group of delayed rows. A group has at least one
  row, so its maximum exists. The mean is the \<open>float64\<close> quotient of the sum of the
  delays by their number; a sum of whole days below \<open>2^53\<close> is exact in \<open>float64\<close>.
\<close>

definition agg_group :: "string \<Rightarrow> frame \<Rightarrow> error + supplier_stat" where
  "agg_group k g =
     (case numeric_delays (map delay g) of
        Inl e \<Rightarrow> Inl e
      | Inr ds \<Rightarrow> Inr \<lparr>
          stat_supplier = k,
          delayed_items = length ds,
          avg_delay_days = round_to_double (of_int (sum_list ds) / of_nat (length ds)),
          max_delay_days = Max (set ds),
          total_qty_delayed = sum_list (map allocated_qty g) \<rparr>)"

fun agg_groups :: "string list \<Rightarrow> frame \<Rightarrow> error + supplier_stat list" where
  "agg_groups [] rows = Inr []"
| "agg_groups (k # ks) rows =
     (case agg_group k (filter (\<lambda>r. supplier r = Some k) rows) of
        Inl e \<Rightarrow> Inl e
      | Inr s \<Rightarrow> (case agg_groups ks rows of Inl e \<Rightarrow> Inl e | Inr ss \<Rightarrow> Inr (s # ss)))"

text \<open>
  \<open>sort_values(column, ascending=False)\<close>. pandas sorts with an unstable algorithm and
  does not fix the order of rows with equal keys. That order is the parameter \<open>tie\<close>:
  among rows with equal keys, the row with the smaller \<open>tie\<close> comes first. Every order
  pandas can leave is the order of some \<open>tie\<close>, and every statement below holds for
  all of them.
\<close>

definition sort_values_desc :: "('a \<Rightarrow> nat) \<Rightarrow> ('a \<Rightarrow> rat) \<Rightarrow> 'a list \<Rightarrow> 'a list" where
  "sort_values_desc tie col rows = sort_key (\<lambda>s. (- col s, tie s)) rows"

text \<open>
  \<open>supplier_performance(df)\<close> (source lines 183 to 201): \<open>Inr None\<close> where the source
  returns \<open>None\<close> (no row has a supplier), \<open>Inl\<close> where the aggregation raises.
\<close>

definition supplier_performance ::
    "(supplier_stat \<Rightarrow> nat) \<Rightarrow> frame \<Rightarrow> error + supplier_stat list option" where
  "supplier_performance tie df =
     (let supplier_data = filter (\<lambda>r. supplier r \<noteq> None) df in
      if supplier_data = [] then Inr None
      else
        let delayed = filter (\<lambda>r. delay_ne_zero (delay r)) supplier_data;
            keys = sort (remdups (List.map_filter supplier delayed))
        in case agg_groups keys delayed of
             Inl e \<Rightarrow> Inl e
           | Inr supplier_stats \<Rightarrow>
               Inr (Some (sort_values_desc tie avg_delay_days supplier_stats)))"

section \<open>Production readiness ranking\<close>

record readiness_row =
  rr_project :: string
  rr_status :: status_label
  rr_fulfillment :: rat
  rr_missing_items :: nat
  rr_max_delay :: delay_cell
  rr_sec_delivery :: "int option"

text \<open>The loop over the distinct projects; it stops at the first exception.\<close>

fun readiness_list :: "frame \<Rightarrow> string list \<Rightarrow> error + readiness_row list" where
  "readiness_list df [] = Inr []"
| "readiness_list df (project # projects) =
     (case calculate_project_status df project of
        Inl e \<Rightarrow> Inl e
      | Inr status_info \<Rightarrow>
          (case readiness_list df projects of
             Inl e \<Rightarrow> Inl e
           | Inr rest \<Rightarrow>
               (case status_info of
                  None \<Rightarrow> Inr rest
                | Some s \<Rightarrow> Inr (\<lparr>
                    rr_project = project,
                    rr_status = status s,
                    rr_fulfillment = fulfillment_pct s,
                    rr_missing_items = missing_items s,
                    rr_max_delay = max_delay s,
                    rr_sec_delivery = status_sec_delivery s \<rparr> # rest))))"

text \<open>
  \<open>production_readiness(df)\<close> (source lines 203 to 224). A frame built from an empty
  list has no column \<open>'Fulfillment %'\<close>, so sorting it raises \<open>KeyError\<close>.
\<close>

definition production_readiness ::
    "(readiness_row \<Rightarrow> nat) \<Rightarrow> frame \<Rightarrow> error + readiness_row list" where
  "production_readiness tie df =
     (case readiness_list df (unique (map sec_order df)) of
        Inl e \<Rightarrow> Inl e
      | Inr [] \<Rightarrow> Inl KeyError
      | Inr rows \<Rightarrow> Inr (sort_values_desc tie rr_fulfillment rows))"

section \<open>Push to production\<close>

text \<open>
  \<open>show_push_to_production(df)\<close> (source lines 624 to 921) reads two widgets (the
  filter type and the selected values) and presents five row lists and a verdict. The
  widget values are inputs of the model; what the view presents is its result. The
  spreadsheet exports and their file names are left out, and the column projections for
  display appear only in the store version of the view further below.
\<close>

datatype filter_type = SEC_Order | SEC_Number | Product

datatype verdict = AllClear | AlmostReady | NotReady

text \<open>
  \<open>df[df[column].isin(selected)].copy() if selected else pd.DataFrame()\<close>; a missing
  product is in no selection.
\<close>

definition filtered_df :: "frame \<Rightarrow> filter_type \<Rightarrow> string list \<Rightarrow> frame" where
  "filtered_df df ft selected =
     (if selected = [] then []
      else case ft of
        SEC_Order \<Rightarrow> filter (\<lambda>r. sec_order r \<in> set selected) df
      | SEC_Number \<Rightarrow> filter (\<lambda>r. sec_number r \<in> set selected) df
      | Product \<Rightarrow>
          filter (\<lambda>r. case product_col r of None \<Rightarrow> False | Some p \<Rightarrow> p \<in> set selected) df)"

text \<open>
  The local variable \<open>fulfillment\<close> is assigned only in the branch whose condition is
  \<open>not filtered_df.empty and filtered_df['req_qty'].sum() > 0\<close>; \<open>None\<close> is the
  unassigned variable.
\<close>

definition fulfillment_of :: "frame \<Rightarrow> rat option" where
  "fulfillment_of rows =
     (if rows \<noteq> [] \<and> sint (sum_list (map req_qty rows)) > 0
      then Some (percentage (sum_list (map allocated_qty rows)) (sum_list (map req_qty rows)))
      else None)"

text \<open>
  The five row selections (source lines 683, 713, 743, 778 to 782 and 833 to 836), each
  a filter of the selected rows. The source's \<open>missing_items\<close> is \<open>missing_rows\<close> here,
  the former being a field of the project status.
\<close>

definition qc_items :: "frame \<Rightarrow> frame" where
  "qc_items rows = filter (\<lambda>r. supply_type r = ''QC'') rows"

definition gr_items :: "frame \<Rightarrow> frame" where
  "gr_items rows = filter (\<lambda>r. supply_type r = ''GR_in_process'') rows"

definition wip_items :: "frame \<Rightarrow> frame" where
  "wip_items rows = filter (\<lambda>r. locater r = ''1-1-1-1'') rows"

definition allocate_items :: "string list \<Rightarrow> frame \<Rightarrow> frame" where
  "allocate_items selected rows =
     filter (\<lambda>r. supply_type r = ''inventory'' \<and> source r \<noteq> ''free_stock''
                \<and> \<not> (source r \<in> set (if selected \<noteq> [] then selected else []))) rows"

definition missing_rows :: "frame \<Rightarrow> frame" where
  "missing_rows rows = filter (\<lambda>r. sint (balance r) > 0 \<and> allocated_qty r = 0) rows"

text \<open>
  Reading a local variable raises \<open>UnboundLocalError\<close> when it was never assigned, and
  Python's \<open>and\<close> evaluates its right operand only when the left one is true.
\<close>

definition read_local :: "'a option \<Rightarrow> error + 'a" where
  "read_local v = (case v of None \<Rightarrow> Inl UnboundLocalError | Some x \<Rightarrow> Inr x)"

definition py_and :: "bool \<Rightarrow> error + bool \<Rightarrow> error + bool" where
  "py_and a b = (if a then b else Inr False)"

definition at_least :: "rat \<Rightarrow> error + rat \<Rightarrow> error + bool" where
  "at_least bound v = (case v of Inl e \<Rightarrow> Inl e | Inr x \<Rightarrow> Inr (x \<ge> bound))"

text \<open>The \<open>if\<close>/\<open>elif\<close>/\<open>else\<close> of lines 878 to 883 that picks the final message.\<close>

definition readiness_verdict :: "nat \<Rightarrow> rat option \<Rightarrow> error + verdict" where
  "readiness_verdict total_blocking fulfillment =
     (case py_and (total_blocking = 0) (at_least 100 (read_local fulfillment)) of
        Inl e \<Rightarrow> Inl e
      | Inr True \<Rightarrow> Inr AllClear
      | Inr False \<Rightarrow>
          (case py_and (total_blocking \<le> 3) (at_least 90 (read_local fulfillment)) of
             Inl e \<Rightarrow> Inl e
           | Inr True \<Rightarrow> Inr AlmostReady
           | Inr False \<Rightarrow> Inr NotReady))"

record push_view =
  view_total_items :: nat
  view_fulfillment :: "rat option"
  view_qc :: frame
  view_gr :: frame
  view_wip :: frame
  view_allocate :: frame
  view_missing :: frame
  view_total_blocking :: nat
  view_verdict :: verdict

text \<open>
  The view: \<open>Inr None\<close> where the source returns early (nothing selected), \<open>Inl\<close> where
  the verdict raises, and what is presented otherwise.
\<close>

definition show_push_to_production :: "frame \<Rightarrow> filter_type \<Rightarrow> string list \<Rightarrow> error + push_view option" where
  "show_push_to_production df ft selected =
     (let rows = filtered_df df ft selected;
          fulfillment = fulfillment_of rows
      in if rows = [] \<or> selected = [] then Inr None
         else
           let total_blocking =
                 length (qc_items rows) + length (gr_items rows) + length (missing_rows rows)
           in case readiness_verdict total_blocking fulfillment of
                Inl e \<Rightarrow> Inl e
              | Inr v \<Rightarrow> Inr (Some \<lparr>
                  view_total_items = length rows,
                  view_fulfillment = fulfillment,
                  view_qc = qc_items rows,
                  view_gr = gr_items rows,
                  view_wip = wip_items rows,
                  view_allocate = allocate_items selected rows,
                  view_missing = missing_rows rows,
                  view_total_blocking = total_blocking,
                  view_verdict = v \<rparr>))"

section \<open>Frames as objects\<close>

text \<open>
  A view receives the table by reference, and pandas frames are mutable objects. To say
  what a view does to the table it is given, frames are kept in a store: an address is an
  index into the list of objects, a new object is appended, and an in-place operation
  overwrites the object at its address. The store versions of the views below perform
  the frame operations of the source, statement by statement: boolean indexing,
  \<open>.copy()\<close>, column selection, \<open>sort_values\<close> and the \<open>DataFrame\<close> constructor
  create an object; assigning \<open>.columns\<close> or a new column writes into one. The value a
  view returns is the one defined above, of the table read through the reference.
\<close>

datatype obj =
    Table frame
  | Sheet "string list" frame
  | Stats "supplier_stat list"
  | Ranking "readiness_row list"
  | Summary "(string \<times> nat) list"

type_synonym addr = nat

type_synonym store = "obj list"

definition new_obj :: "obj \<Rightarrow> store \<Rightarrow> addr \<times> store" where
  "new_obj x s = (length s, s @ [x])"

definition write_obj :: "addr \<Rightarrow> obj \<Rightarrow> store \<Rightarrow> store" where
  "write_obj a x s = (if a < length s then s[a := x] else s)"

definition table_at :: "store \<Rightarrow> addr \<Rightarrow> frame" where
  "table_at s a =
     (if a < length s
      then (case s ! a of Table rows \<Rightarrow> rows | Sheet labels rows \<Rightarrow> rows | _ \<Rightarrow> [])
      else [])"

text \<open>\<open>frame[mask]\<close> and \<open>frame.copy()\<close>.\<close>

definition select_rows :: "(row \<Rightarrow> bool) \<Rightarrow> addr \<Rightarrow> store \<Rightarrow> addr \<times> store" where
  "select_rows keep a s = new_obj (Table (filter keep (table_at s a))) s"

definition copy_frame :: "addr \<Rightarrow> store \<Rightarrow> addr \<times> store" where
  "copy_frame a s = new_obj (Table (table_at s a)) s"

text \<open>
  \<open>display = frame[[columns]].copy()\<close> followed by \<open>display.columns = labels\<close>: two new
  objects and a write into the second.
\<close>

definition display_sheet :: "addr \<Rightarrow> string list \<Rightarrow> string list \<Rightarrow> store \<Rightarrow> addr \<times> store" where
  "display_sheet a columns labels s =
     (let (selection, s1) = new_obj (Sheet columns (table_at s a)) s;
          (display, s2) = new_obj (Sheet columns (table_at s1 selection)) s1
      in (display, write_obj display (Sheet labels (table_at s2 display)) s2))"

text \<open>\<open>calculate_project_status\<close>: the project's rows and their copy, then the four
  filtered frames that are counted or searched for the maximum delay.\<close>

definition calculate_project_status_st ::
    "addr \<Rightarrow> string \<Rightarrow> store \<Rightarrow> (error + project_status option) \<times> store" where
  "calculate_project_status_st df project s =
     (let (selection, s1) = select_rows (\<lambda>r. sec_order r = project) df s;
          (proj_data, s2) = copy_frame selection s1
      in if table_at s2 proj_data = [] then (Inr None, s2)
         else
           let (ready, s3) = select_rows (\<lambda>r. balance r = 0) proj_data s2;
               (partial, s4) =
                 select_rows (\<lambda>r. sint (balance r) > 0 \<and> sint (allocated_qty r) > 0) proj_data s3;
               (missing, s5) = select_rows (\<lambda>r. allocated_qty r = 0) proj_data s4;
               (delayed_items, s6) = select_rows (\<lambda>r. delay_ne_zero (delay r)) proj_data s5
           in (calculate_project_status (table_at s6 df) project, s6))"

text \<open>\<open>material_inquiry\<close>: the item's rows and their copy, then the four frames of the
  blocking-issue rules.\<close>

definition material_inquiry_st :: "addr \<Rightarrow> string \<Rightarrow> store \<Rightarrow> inquiry option \<times> store" where
  "material_inquiry_st df item_code s =
     (let (selection, s1) = select_rows (\<lambda>r. item r = item_code) df s;
          (item_rows, s2) = copy_frame selection s1
      in if table_at s2 item_rows = [] then (None, s2)
         else
           let (qc, s3) = select_rows (\<lambda>r. supply_type r = ''QC'') item_rows s2;
               (gr, s4) = select_rows (\<lambda>r. supply_type r = ''GR_in_process'') item_rows s3;
               (po_late, s5) =
                 select_rows (\<lambda>r. supply_type r = ''PO'' \<and> delay r = Late) item_rows s4;
               (pr, s6) = select_rows (\<lambda>r. supply_type r = ''PR'') item_rows s5
           in (material_inquiry (table_at s6 df) item_code, s6))"

text \<open>
  \<open>supplier_performance\<close>: two selections with their copies, the aggregated frame, the
  assignment of its column names, and the sorted frame.
\<close>

definition supplier_performance_st ::
    "(supplier_stat \<Rightarrow> nat) \<Rightarrow> addr \<Rightarrow> store \<Rightarrow> (error + supplier_stat list option) \<times> store" where
  "supplier_performance_st tie df s =
     (let (selection, s1) = select_rows (\<lambda>r. supplier r \<noteq> None) df s;
          (supplier_data, s2) = copy_frame selection s1
      in if table_at s2 supplier_data = [] then (Inr None, s2)
         else
           let (delayed_selection, s3) = select_rows (\<lambda>r. delay_ne_zero (delay r)) supplier_data s2;
               (delayed, s4) = copy_frame delayed_selection s3;
               rows = table_at s4 delayed
           in case agg_groups (sort (remdups (List.map_filter supplier rows))) rows of
                Inl e \<Rightarrow> (Inl e, s4)
              | Inr aggregated \<Rightarrow>
                  let (supplier_stats, s5) = new_obj (Stats aggregated) s4;
                      s6 = write_obj supplier_stats (Stats aggregated) s5;
                      (sorted_stats, s7) =
                        new_obj (Stats (sort_values_desc tie avg_delay_days aggregated)) s6
                  in (supplier_performance tie (table_at s7 df), s7))"

text \<open>\<open>production_readiness\<close>: the status of each project in turn, then the frame built
  from the list and its sorted version.\<close>

fun status_loop_st :: "addr \<Rightarrow> string list \<Rightarrow> store \<Rightarrow> store" where
  "status_loop_st df [] s = s"
| "status_loop_st df (project # projects) s =
     (case calculate_project_status_st df project s of
        (Inl e, s1) \<Rightarrow> s1
      | (Inr status_info, s1) \<Rightarrow> status_loop_st df projects s1)"

definition production_readiness_st ::
    "(readiness_row \<Rightarrow> nat) \<Rightarrow> addr \<Rightarrow> store \<Rightarrow> (error + readiness_row list) \<times> store" where
  "production_readiness_st tie df s =
     (let projects = unique (map sec_order (table_at s df));
          s1 = status_loop_st df projects s
      in case readiness_list (table_at s1 df) projects of
           Inl e \<Rightarrow> (Inl e, s1)
         | Inr rows \<Rightarrow>
             let (readiness_df, s2) = new_obj (Ranking rows) s1
             in if rows = [] then (Inl KeyError, s2)
                else
                  let (sorted_df, s3) =
                        new_obj (Ranking (sort_values_desc tie rr_fulfillment rows)) s2
                  in (production_readiness tie (table_at s3 df), s3))"

text \<open>
  One section of the push-to-production view: the selected rows and their copy and, when
  there are any, the sheet that is displayed and exported.
\<close>

definition bucket_st :: "(row \<Rightarrow> bool) \<Rightarrow> string list \<Rightarrow> string list \<Rightarrow> addr \<Rightarrow> store \<Rightarrow> addr \<times> store" where
  "bucket_st keep columns labels rows s =
     (let (selection, s1) = select_rows keep rows s;
          (items, s2) = copy_frame selection s1
      in if table_at s2 items = [] then (items, s2)
         else let (display, s3) = display_sheet items columns labels s2 in (items, s3))"

text \<open>
  The reallocation section adds the column \<open>'Action Required'\<close> to its sheet after the
  renaming: one more write into the sheet.
\<close>

definition allocate_bucket_st :: "string list \<Rightarrow> addr \<Rightarrow> store \<Rightarrow> addr \<times> store" where
  "allocate_bucket_st selected rows s =
     (let (selection, s1) =
            select_rows (\<lambda>r. supply_type r = ''inventory'' \<and> source r \<noteq> ''free_stock''
                           \<and> \<not> (source r \<in> set (if selected \<noteq> [] then selected else []))) rows s;
          (items, s2) = copy_frame selection s1
      in if table_at s2 items = [] then (items, s2)
         else
           let (display, s3) =
                 display_sheet items
                   [''item'', ''description'', ''allocated_qty'', ''SEC order'', ''source'', ''locater'']
                   [''Item Code'', ''Description'', ''Qty to Reallocate'', ''Project'',
                    ''Source Project'', ''Locater'']
                   s2
           in (items,
               write_obj display
                 (Sheet [''Item Code'', ''Description'', ''Qty to Reallocate'', ''Project'',
                         ''Source Project'', ''Locater'', ''Action Required'']
                    (table_at s3 display)) s3))"

definition show_push_to_production_st ::
    "addr \<Rightarrow> filter_type \<Rightarrow> string list \<Rightarrow> store \<Rightarrow> (error + push_view option) \<times> store" where
  "show_push_to_production_st df ft selected s =
     (let (rows, s1) = new_obj (Table (filtered_df (table_at s df) ft selected)) s
      in if table_at s1 rows = [] \<or> selected = [] then (Inr None, s1)
         else
           let (qc, s2) =
                 bucket_st (\<lambda>r. supply_type r = ''QC'')
                   [''item'', ''description'', ''allocated_qty'', ''locater'', ''supplier'',
                    ''availability_date'']
                   [''Item Code'', ''Description'', ''Qty in QC'', ''PO-Line'', ''Supplier'',
                    ''Received Date'']
                   rows s1;
               (gr, s3) =
                 bucket_st (\<lambda>r. supply_type r = ''GR_in_process'')
                   [''item'', ''description'', ''allocated_qty'', ''locater'', ''supplier'',
                    ''availability_date'']
                   [''Item Code'', ''Description'', ''Qty Pending GR'', ''PO-Line'', ''Supplier'',
                    ''Receipt Date'']
                   rows s2;
               (wip, s4) =
                 bucket_st (\<lambda>r. locater r = ''1-1-1-1'')
                   [''item'', ''description'', ''allocated_qty'', ''source'', ''locater'']
                   [''Item Code'', ''Description'', ''Available Qty'', ''Source Job'', ''Locater'']
                   rows s3;
               (allocate, s5) = allocate_bucket_st selected rows s4;
               (missing, s6) =
                 bucket_st (\<lambda>r. sint (balance r) > 0 \<and> allocated_qty r = 0)
                   [''item'', ''description'', ''req_qty'', ''balance'']
                   [''Item Code'', ''Description'', ''Required Qty'', ''Missing Qty'']
                   rows s5
           in case show_push_to_production (table_at s6 df) ft selected of
                Inl e \<Rightarrow> (Inl e, s6)
              | Inr view \<Rightarrow>
                  let (summary_df, s7) =
                        new_obj (Summary
                          [(''QC Items'', length (table_at s6 qc)),
                           (''GR Pending'', length (table_at s6 gr)),
                           (''WIP Items'', length (table_at s6 wip)),
                           (''To Reallocate'', length (table_at s6 allocate)),
                           (''Missing Materials'', length (table_at s6 missing))]) s6
                  in (Inr view, s7))"

section \<open>Notions used in the statements\<close>

text \<open>
  The quantity a frame holds under one supply type: the sum the inquiry prints in its
  QC and GR messages.
\<close>

definition held_quantity :: "string \<Rightarrow> frame \<Rightarrow> int64" where
  "held_quantity st rows = sum_list (map allocated_qty (filter (\<lambda>r. supply_type r = st) rows))"

text \<open>The rows of one supplier that have a nonzero delay.\<close>

definition delayed_rows_of :: "frame \<Rightarrow> string \<Rightarrow> frame" where
  "delayed_rows_of df k = filter (\<lambda>r. supplier r = Some k \<and> delay_ne_zero (delay r)) df"

section \<open>Example tables\<close>

text \<open>
  Concrete demand lines and tables on which the views are evaluated. A demand line is
  given by its project, item code, required, allocated and balance quantity, supply type,
  source, locater and delay; it has no supplier, product or date unless one is set.
\<close>

definition demand_line ::
    "string \<Rightarrow> string \<Rightarrow> int64 \<Rightarrow> int64 \<Rightarrow> int64 \<Rightarrow> string \<Rightarrow> string \<Rightarrow> string \<Rightarrow> delay_cell \<Rightarrow> row" where
  "demand_line project code req alloc bal stype src loc dl =
     \<lparr> sec_order = project, sec_number = ''S-1'', product_col = None, item = code,
       description = ''part'', req_qty = req, allocated_qty = alloc, balance = bal,
       supply_type = stype, source = src, locater = loc, supplier = None, delay = dl,
       sec_delivery = None, roh_delivery = None \<rparr>"

text \<open>The project of the specification's example: one line is covered, one has no supply.\<close>

definition example_p1 :: frame where
  "example_p1 =
     [demand_line ''P1'' ''ITM1'' 10 10 0 ''inventory'' ''free_stock'' ''A-1'' (Days 0),
      demand_line ''P1'' ''ITM2'' 5 0 5 ''PR'' ''-'' ''-'' (Days 0)]"

text \<open>A project with a delay of 5 days on one line and \<open>'late'\<close> on another.\<close>

definition mixed_delay_rows :: frame where
  "mixed_delay_rows =
     [demand_line ''P1'' ''ITM1'' 10 10 0 ''PO'' ''PO-1'' ''-'' (Days 5),
      demand_line ''P1'' ''ITM2'' 5 5 0 ''PO'' ''PO-2'' ''-'' Late]"

text \<open>A line that requires nothing, and a line with a negative allocated quantity.\<close>

definition zero_line :: row where
  "zero_line = demand_line ''P1'' ''ITM1'' 0 0 0 ''inventory'' ''free_stock'' ''A-1'' (Days 0)"

definition returned_line :: row where
  "returned_line = demand_line ''P1'' ''ITM1'' 5 (- 3) 8 ''inventory'' ''free_stock'' ''A-1'' (Days 0)"

text \<open>
  The zero line beside a partly covered line, and two fully covered lines whose required
  quantities add up to \<open>2^63\<close>, one more than the largest \<open>int64\<close>.
\<close>

definition zero_and_partial_lines :: frame where
  "zero_and_partial_lines =
     [zero_line, demand_line ''P1'' ''ITM2'' 5 2 3 ''inventory'' ''free_stock'' ''A-1'' (Days 0)]"

definition wrapping_rows :: frame where
  "wrapping_rows =
     [demand_line ''P1'' ''ITM1'' (2 ^ 62) (2 ^ 62) 0 ''inventory'' ''free_stock'' ''A-1'' (Days 0),
      demand_line ''P1'' ''ITM2'' (2 ^ 62) (2 ^ 62) 0 ''inventory'' ''free_stock'' ''A-1'' (Days 0)]"

text \<open>
  The item of the specification's example (a QC row with allocated quantity 3 and a PR
  row with balance 2), and a QC row with allocated quantity 0.
\<close>

definition itm1_rows :: frame where
  "itm1_rows =
     [demand_line ''P1'' ''ITM1'' 3 3 0 ''QC'' ''PO-77'' ''R-2'' (Days 0),
      demand_line ''P2'' ''ITM1'' 2 0 2 ''PR'' ''-'' ''-'' (Days 0)]"

definition qc_zero_line :: row where
  "qc_zero_line = demand_line ''P1'' ''ITM1'' 4 0 4 ''QC'' ''PO-77'' ''R-2'' (Days 0)"

text \<open>Five lines of three suppliers; one supplier has no delay, one line has no supplier.\<close>

definition supplier_rows :: frame where
  "supplier_rows =
     [(demand_line ''P1'' ''ITM1'' 10 10 0 ''PO'' ''PO-1'' ''-'' (Days 4))\<lparr>supplier := Some ''Acme''\<rparr>,
      (demand_line ''P1'' ''ITM2'' 5 5 0 ''PO'' ''PO-2'' ''-'' (Days 10))\<lparr>supplier := Some ''Bolt''\<rparr>,
      (demand_line ''P2'' ''ITM1'' 2 2 0 ''PO'' ''PO-3'' ''-'' (Days 2))\<lparr>supplier := Some ''Acme''\<rparr>,
      (demand_line ''P2'' ''ITM3'' 7 7 0 ''PO'' ''PO-4'' ''-'' (Days 0))\<lparr>supplier := Some ''Cord''\<rparr>,
      demand_line ''P2'' ''ITM4'' 1 1 0 ''inventory'' ''free_stock'' ''A-1'' (Days 3)]"

text \<open>Two purchase-order lines of two suppliers: one is 4 days late, one has the delay \<open>'late'\<close>.\<close>

definition late_supplier_rows :: frame where
  "late_supplier_rows =
     [(demand_line ''P1'' ''ITM1'' 10 10 0 ''PO'' ''PO-1'' ''-'' (Days 4))\<lparr>supplier := Some ''Acme''\<rparr>,
      (demand_line ''P1'' ''ITM2'' 5 0 5 ''PO'' ''PO-2'' ''-'' Late)\<lparr>supplier := Some ''Bolt''\<rparr>]"

text \<open>
  Rows for the push-to-production view: a QC row stored at the WIP locater; the
  specification's reallocation example (inventory taken from \<open>ProjB\<close>, and free stock);
  four QC rows that require nothing.
\<close>

definition qc_wip_line :: row where
  "qc_wip_line = demand_line ''P1'' ''ITM1'' 5 5 0 ''QC'' ''PO-77'' ''1-1-1-1'' (Days 0)"

definition realloc_rows :: frame where
  "realloc_rows =
     [demand_line ''ProjA'' ''ITM1'' 5 5 0 ''inventory'' ''ProjB'' ''A-1'' (Days 0),
      demand_line ''ProjA'' ''ITM2'' 5 5 0 ''inventory'' ''free_stock'' ''A-1'' (Days 0)]"

definition four_qc_lines :: frame where
  "four_qc_lines = replicate 4 (demand_line ''P1'' ''ITM1'' 0 0 0 ''QC'' ''PO-77'' ''R-2'' (Days 0))"

text \<open>
  A line of project \<open>ProjA\<close> and product \<open>Widget\<close> that is covered from the inventory
  of \<open>ProjA\<close> itself, and a goods-receipt line that requires nothing.
\<close>

definition own_stock_line :: row where
  "own_stock_line =
     (demand_line ''ProjA'' ''ITM1'' 5 5 0 ''inventory'' ''ProjA'' ''A-1'' (Days 0))
       \<lparr>product_col := Some ''Widget''\<rparr>"

definition gr_zero_line :: row where
  "gr_zero_line = demand_line ''P1'' ''ITM1'' 0 0 0 ''GR_in_process'' ''PO-78'' ''R-3'' (Days 0)"

text \<open>A store that holds one table, at address 0.\<close>

definition session_store :: store where
  "session_store = [Table example_p1]"

section \<open>Properties of the machine numbers\<close>

lemma bitlen_powi_bounds:
  assumes "0 < (n::int)"
  shows "(2::rat) powi (bitlen n - 1) \<le> of_int n" and "of_int n < (2::rat) powi bitlen n"
proof -
  from bitlen_bounds[OF assms]
  have a: "2 ^ nat (bitlen n - 1) \<le> n" and b: "n < 2 ^ nat (bitlen n)" by auto
  have pos: "bitlen n \<ge> 1" using assms by (auto simp: bitlen_alt_def)
  have "(2::rat) powi (bitlen n - 1) = 2 ^ nat (bitlen n - 1)"
    using pos by (simp add: power_int_def)
  also have "\<dots> = of_int (2 ^ nat (bitlen n - 1))" by simp
  also have "\<dots> \<le> of_int n" using a by (simp only: of_int_le_iff)
  finally show "(2::rat) powi (bitlen n - 1) \<le> of_int n" .
  have "(of_int n :: rat) < of_int (2 ^ nat (bitlen n))" using b by (simp only: of_int_less_iff)
  also have "\<dots> = 2 ^ nat (bitlen n)" by simp
  also have "\<dots> = (2::rat) powi bitlen n"
    using pos by (simp add: power_int_def)
  finally show "of_int n < (2::rat) powi bitlen n" .
qed

lemma powi2_add: "(2::rat) powi (a + b) = 2 powi a * 2 powi b"
  by (simp add: power_int_add)

lemma powi2_diff: "(2::rat) powi (a - b) = 2 powi a / 2 powi b"
  by (simp add: power_int_diff)

text \<open>The exponent is the binary order of magnitude.\<close>

lemma binary_exponent_bounds:
  assumes "0 < x"
  shows "2 powi binary_exponent x \<le> x" and "x < 2 powi (binary_exponent x + 1)"
proof -
  obtain p q where pq: "quotient_of x = (p, q)" by fastforce
  have q: "0 < q" using quotient_of_denom_pos[OF pq] .
  have x: "x = of_int p / of_int q" using quotient_of_div[OF pq] .
  have p: "0 < p" using assms q unfolding x by (simp add: zero_less_divide_iff)
  let ?d = "bitlen p - bitlen q"
  note bp = bitlen_powi_bounds[OF p] and bq = bitlen_powi_bounds[OF q]
  have qr: "(0::rat) < of_int q" using q by simp
  have lo: "2 powi (?d - 1) < x"
  proof -
    have "?d - 1 = (bitlen p - 1) - bitlen q" by simp
    then have "(2::rat) powi (?d - 1) = 2 powi (bitlen p - 1) / 2 powi bitlen q"
      by (simp only: powi2_diff)
    also have "\<dots> < of_int p / of_int q"
      using bp(1) bq(2) qr by (intro frac_less2) auto
    finally show ?thesis unfolding x .
  qed
  have hi: "x < 2 powi (?d + 1)"
  proof -
    have "x < 2 powi bitlen p / 2 powi (bitlen q - 1)"
      unfolding x using bp(2) bq(1) p by (intro frac_less) auto
    also have "\<dots> = (2::rat) powi (bitlen p - (bitlen q - 1))"
      by (simp only: powi2_diff)
    also have "bitlen p - (bitlen q - 1) = ?d + 1" by simp
    finally show ?thesis .
  qed
  have e: "binary_exponent x = (if of_int q * (2::rat) powi ?d \<le> of_int p then ?d else ?d - 1)"
    using assms pq by (simp add: binary_exponent_def)
  show "2 powi binary_exponent x \<le> x"
  proof (cases "of_int q * (2::rat) powi ?d \<le> of_int p")
    case True
    then have "(2::rat) powi ?d \<le> x" unfolding x using qr by (simp add: field_simps)
    then show ?thesis using True e by simp
  next
    case False
    then show ?thesis using e lo by simp
  qed
  show "x < 2 powi (binary_exponent x + 1)"
  proof (cases "of_int q * (2::rat) powi ?d \<le> of_int p")
    case True
    then show ?thesis using e hi by simp
  next
    case False
    then have "x < (2::rat) powi ?d" unfolding x using qr by (simp add: field_simps)
    then show ?thesis using False e by simp
  qed
qed

lemma binary_exponent_mono:
  assumes "0 < x" "x \<le> y"
  shows "binary_exponent x \<le> binary_exponent y"
proof (rule ccontr)
  assume "\<not> binary_exponent x \<le> binary_exponent y"
  then have "binary_exponent y + 1 \<le> binary_exponent x" by simp
  then have "(2::rat) powi (binary_exponent y + 1) \<le> 2 powi binary_exponent x"
    by (intro power_int_increasing) auto
  moreover have "y < 2 powi (binary_exponent y + 1)"
    using binary_exponent_bounds(2)[of y] assms by simp
  moreover have "2 powi binary_exponent x \<le> x"
    using binary_exponent_bounds(1)[OF assms(1)] .
  ultimately show False using assms(2) by simp
qed

text \<open>Rounding to an integer stays within the neighbours and keeps the order.\<close>

lemma round_half_even_bounds:
  "\<lfloor>q\<rfloor> \<le> round_half_even q" "round_half_even q \<le> \<lfloor>q\<rfloor> + 1"
  unfolding round_half_even_def Let_def by auto

lemma round_half_even_of_int [simp]: "round_half_even (of_int n) = n"
  by (simp add: round_half_even_def)

lemma round_half_even_mono:
  assumes "a \<le> b"
  shows "round_half_even a \<le> round_half_even b"
proof (cases "\<lfloor>a\<rfloor> = \<lfloor>b\<rfloor>")
  case True
  then show ?thesis using assms unfolding round_half_even_def Let_def by auto
next
  case False
  then have "\<lfloor>a\<rfloor> + 1 \<le> \<lfloor>b\<rfloor>" using assms floor_mono[OF assms] by linarith
  then show ?thesis
    using round_half_even_bounds(2)[of a] round_half_even_bounds(1)[of b] by linarith
qed

text \<open>
  The rounded value of a positive number lies in the closed binade of the number, and
  rounding keeps the order of non-negative numbers.
\<close>

lemma round_to_double_pos:
  assumes "0 < x"
  shows "2 powi binary_exponent x \<le> round_to_double x"
    and "round_to_double x \<le> 2 powi (binary_exponent x + 1)"
proof -
  let ?e = "binary_exponent x - 52"
  let ?q = "x / 2 powi ?e"
  have r: "round_to_double x = of_int (round_half_even ?q) * 2 powi ?e"
    using assms by (simp add: round_to_double_def Let_def)
  have pw: "(0::rat) < 2 powi ?e" by simp
  have lo: "(2::rat) ^ 52 \<le> ?q"
  proof -
    have "(2::rat) ^ 52 * 2 powi ?e = 2 powi binary_exponent x"
      using power_int_add[of "2::rat" 52 ?e] by simp
    then show ?thesis using binary_exponent_bounds(1)[OF assms] pw
      by (simp add: pos_le_divide_eq)
  qed
  have hi: "?q \<le> (2::rat) ^ 53"
  proof -
    have "(2::rat) ^ 53 * 2 powi ?e = 2 powi (binary_exponent x + 1)"
      using powi2_add[of 53 ?e] by (simp add: add.commute)
    then show ?thesis using binary_exponent_bounds(2)[OF assms] pw
      by (simp add: pos_divide_le_eq)
  qed
  have "round_half_even (of_int (2 ^ 52)) \<le> round_half_even ?q"
    by (rule round_half_even_mono) (use lo in simp)
  then have a: "(2::rat) ^ 52 \<le> of_int (round_half_even ?q)"
    unfolding round_half_even_of_int by (metis of_int_le_iff of_int_numeral of_int_power)
  have "round_half_even ?q \<le> round_half_even (of_int (2 ^ 53))"
    by (rule round_half_even_mono) (use hi in simp)
  then have b: "of_int (round_half_even ?q) \<le> (2::rat) ^ 53"
    unfolding round_half_even_of_int by (metis of_int_le_iff of_int_numeral of_int_power)
  have "2 powi binary_exponent x = (2::rat) ^ 52 * 2 powi ?e"
    using power_int_add[of "2::rat" 52 ?e] by simp
  also have "\<dots> \<le> of_int (round_half_even ?q) * 2 powi ?e"
    using a pw by (simp add: mult_right_mono)
  finally show "2 powi binary_exponent x \<le> round_to_double x" unfolding r .
  have "of_int (round_half_even ?q) * 2 powi ?e \<le> (2::rat) ^ 53 * 2 powi ?e"
    using b pw by (simp add: mult_right_mono)
  also have "\<dots> = 2 powi (binary_exponent x + 1)"
    using powi2_add[of 53 ?e] by (simp add: add.commute)
  finally show "round_to_double x \<le> 2 powi (binary_exponent x + 1)" unfolding r .
qed

lemma round_to_double_nonneg:
  assumes "0 \<le> x"
  shows "0 \<le> round_to_double x"
proof (cases "x = 0")
  case True
  then show ?thesis by (simp add: round_to_double_def)
next
  case False
  then have "0 < x" using assms by simp
  from round_to_double_pos(1)[OF this] show ?thesis
    by (meson order_trans zero_less_power_int less_imp_le zero_less_numeral)
qed

lemma round_to_double_mono:
  assumes "0 \<le> x" "x \<le> y"
  shows "round_to_double x \<le> round_to_double y"
proof (cases "x = 0")
  case True
  then show ?thesis using round_to_double_nonneg[of y] assms by (simp add: round_to_double_def)
next
  case False
  then have x: "0 < x" using assms by simp
  then have y: "0 < y" using assms by simp
  have le: "binary_exponent x \<le> binary_exponent y" using binary_exponent_mono[OF x assms(2)] .
  show ?thesis
  proof (cases "binary_exponent x = binary_exponent y")
    case True
    let ?e = "binary_exponent x - 52"
    have "x / 2 powi ?e \<le> y / 2 powi ?e" using assms(2) by (simp add: divide_right_mono)
    then have "round_half_even (x / 2 powi ?e) \<le> round_half_even (y / 2 powi ?e)"
      by (rule round_half_even_mono)
    then have "(of_int (round_half_even (x / 2 powi ?e)) :: rat) * 2 powi ?e
             \<le> of_int (round_half_even (y / 2 powi ?e)) * 2 powi ?e"
      by (simp add: mult_right_mono)
    then show ?thesis using x y True by (simp add: round_to_double_def Let_def)
  next
    case False
    then have "binary_exponent x + 1 \<le> binary_exponent y" using le by simp
    then have "(2::rat) powi (binary_exponent x + 1) \<le> 2 powi binary_exponent y"
      by (intro power_int_increasing) auto
    then show ?thesis
      using round_to_double_pos(2)[OF x] round_to_double_pos(1)[OF y] by linarith
  qed
qed

lemma round_to_double_1: "round_to_double 1 = 1"
  by code_simp

lemma round_to_double_100: "round_to_double 100 = 100"
  by code_simp

text \<open>
  The percentage of a non-negative part of a positive whole is between 0 and 100 also
  after the three roundings.
\<close>

lemma percentage_bounds:
  assumes "0 \<le> sint a" "sint a \<le> sint r" "0 < sint r"
  shows "0 \<le> percentage a r" and "percentage a r \<le> 100"
proof -
  have a0: "0 \<le> to_double a"
    unfolding to_double_def using assms(1)
    by (intro round_to_double_nonneg) (simp del: of_int_sint)
  have ar: "to_double a \<le> to_double r"
    unfolding to_double_def using assms(1,2)
    by (intro round_to_double_mono) (simp_all del: of_int_sint)
  have "(1::rat) \<le> of_int (sint r)"
    using assms(3) by (simp del: of_int_sint add: of_int_1_le_iff)
  then have "round_to_double 1 \<le> to_double r"
    unfolding to_double_def by (intro round_to_double_mono) simp_all
  then have r1: "1 \<le> to_double r" by (simp add: round_to_double_1)
  have q0: "0 \<le> to_double a / to_double r" using a0 r1 by simp
  have q1: "to_double a / to_double r \<le> 1" using ar r1 by (simp add: divide_le_eq_1)
  have d0: "0 \<le> float_div (to_double a) (to_double r)"
    unfolding float_div_def using q0 by (rule round_to_double_nonneg)
  have "float_div (to_double a) (to_double r) \<le> round_to_double 1"
    unfolding float_div_def using q0 q1 by (rule round_to_double_mono)
  then have d1: "float_div (to_double a) (to_double r) \<le> 1" by (simp add: round_to_double_1)
  show "0 \<le> percentage a r"
    unfolding percentage_def float_mul_def using d0 by (intro round_to_double_nonneg) simp
  have "percentage a r \<le> round_to_double 100"
    unfolding percentage_def float_mul_def using d0 d1 by (intro round_to_double_mono) simp_all
  then show "percentage a r \<le> 100" by (simp add: round_to_double_100)
qed

text \<open>A column of non-negative cells whose exact sum is below \<open>2^63\<close> does not wrap.\<close>

lemma sint_sum_list:
  assumes "\<forall>w\<in>set ws. 0 \<le> sint w" and "sum_list (map sint ws) < 2 ^ 63"
  shows "sint (sum_list ws :: int64) = sum_list (map sint ws)"
  using assms
proof (induction ws)
  case Nil
  then show ?case by simp
next
  case (Cons w ws)
  have nonneg: "0 \<le> sum_list (map sint ws)"
    using Cons.prems(1) by (intro sum_list_nonneg) auto
  have w: "0 \<le> sint w" using Cons.prems(1) by simp
  have "sum_list (map sint ws) < 2 ^ 63" using Cons.prems(2) w by simp
  then have ih: "sint (sum_list ws) = sum_list (map sint ws)"
    using Cons.IH Cons.prems(1) by simp
  have "sint (w + sum_list ws) = signed_take_bit 63 (sint w + sint (sum_list ws))"
    by (simp add: sint_word_add)
  also have "\<dots> = sint w + sint (sum_list ws)"
    using Cons.prems(2) w nonneg unfolding ih
    by (intro signed_take_bit_int_eq_self) auto
  finally show ?case using ih by simp
qed

lemma sum_list_sint_mono:
  assumes "\<forall>r\<in>set rows. sint (f r) \<le> sint (g r)"
  shows "sum_list (map (\<lambda>r. sint (f r)) rows) \<le> sum_list (map (\<lambda>r. sint (g r)) rows)"
  using assms by (intro sum_list_mono) auto

section \<open>Properties of the project status\<close>

lemma status_returns:
  assumes "project_rows df p \<noteq> []" and "project_max_delay (project_rows df p) = Inr mx"
  shows "\<exists>s. calculate_project_status df p = Inr (Some s)"
  using assms by (simp add: calculate_project_status_def Let_def split: prod.split)

lemma status_values:
  assumes "calculate_project_status df p = Inr (Some s)"
  shows "total_items s = length (project_rows df p)
     \<and> ready_items s = length (filter (\<lambda>r. balance r = 0) (project_rows df p))
     \<and> partial_items s
         = length (filter (\<lambda>r. sint (balance r) > 0 \<and> sint (allocated_qty r) > 0) (project_rows df p))
     \<and> missing_items s = length (filter (\<lambda>r. allocated_qty r = 0) (project_rows df p))
     \<and> total_req s = sum_list (map req_qty (project_rows df p))
     \<and> total_allocated s = sum_list (map allocated_qty (project_rows df p))
     \<and> total_balance s = sum_list (map balance (project_rows df p))
     \<and> fulfillment_pct s
         = (if sint (total_req s) > 0 then percentage (total_allocated s) (total_req s) else 0)
     \<and> status s = fst (overall_status (total_balance s) (missing_items s) (max_delay s))"
  using assms by (auto simp add: calculate_project_status_def Let_def split: prod.splits if_splits sum.splits)

lemma status_fields:
  assumes "calculate_project_status df p = Inr (Some s)"
  shows "project_rows df p \<noteq> []" "project_max_delay (project_rows df p) = Inr (max_delay s)"
  using assms by (auto simp add: calculate_project_status_def Let_def split: prod.splits if_splits sum.splits)

text \<open>
  \<open>series_max\<close> on numbers only returns their maximum, on \<open>'late'\<close> cells only returns
  \<open>'late'\<close>, and raises on a mixture.
\<close>

lemma series_max_is_max:
  "series_max (Days a) (map Days xs) = Inr (Days (Max (set (a # xs))))"
proof (induction xs arbitrary: a)
  case Nil
  then show ?case by simp
next
  case (Cons x xs)
  have "series_max (Days a) (map Days (x # xs)) = series_max (Days (max a x)) (map Days xs)"
    by (simp add: max_def)
  also have "\<dots> = Inr (Days (Max (set (max a x # xs))))"
    by (rule Cons.IH)
  also have "Max (set (max a x # xs)) = Max (set (a # x # xs))"
    by (cases "xs = []") (simp_all add: max.assoc)
  finally show ?case .
qed

lemma series_max_numeric:
  "Late \<notin> set xs \<Longrightarrow> \<exists>m. series_max (Days a) xs = Inr (Days m)"
proof (induction xs arbitrary: a)
  case Nil
  then show ?case by simp
next
  case (Cons x xs)
  then obtain b where "x = Days b" by (cases x) auto
  with Cons show ?case by simp
qed

lemma series_max_all_late:
  "\<forall>x\<in>set xs. x = Late \<Longrightarrow> series_max Late xs = Inr Late"
  by (induction xs) auto

lemma series_max_days_late:
  "Late \<in> set xs \<Longrightarrow> series_max (Days a) xs = Inl TypeError"
proof (induction xs arbitrary: a)
  case Nil
  then show ?case by simp
next
  case (Cons x xs)
  then show ?case by (cases x) auto
qed

lemma series_max_late_days:
  "\<exists>x\<in>set xs. x \<noteq> Late \<Longrightarrow> series_max Late xs = Inl TypeError"
proof (induction xs)
  case Nil
  then show ?case by simp
next
  case (Cons x xs)
  then show ?case by (cases x) auto
qed

lemma series_max_defined:
  "(\<exists>m. series_max d ds = Inr m) \<longleftrightarrow> (Late \<notin> set (d # ds) \<or> (\<forall>x\<in>set (d # ds). x = Late))"
proof (cases d)
  case (Days a)
  show ?thesis
  proof (cases "Late \<in> set ds")
    case True
    then show ?thesis using Days series_max_days_late[of ds a] by auto
  next
    case False
    then show ?thesis using Days series_max_numeric[of ds a] by auto
  qed
next
  case Late
  show ?thesis
  proof (cases "\<forall>x\<in>set ds. x = Late")
    case True
    then show ?thesis using Late series_max_all_late[of ds] by auto
  next
    case False
    then have "\<exists>x\<in>set ds. x \<noteq> Late" by blast
    then show ?thesis using Late False series_max_late_days[of ds] by auto
  qed
qed

text \<open>
  The maximum delay of a project is computed unless its rows with nonzero delay mix
  numbers and \<open>'late'\<close>; then the comparison inside \<open>max()\<close> raises and no status is
  returned.
\<close>

lemma project_max_delay_defined:
  "(\<exists>mx. project_max_delay rows = Inr mx)
     \<longleftrightarrow> (\<forall>r\<in>set rows. delay r \<noteq> Late) \<or> (\<forall>r\<in>set rows. delay r = Late \<or> delay r = Days 0)"
proof (cases "map delay (filter (\<lambda>r. delay_ne_zero (delay r)) rows)")
  case Nil
  then have "\<forall>r\<in>set rows. \<not> delay_ne_zero (delay r)"
    by (simp add: filter_empty_conv)
  then have "\<forall>r\<in>set rows. delay r \<noteq> Late" by auto
  then show ?thesis using Nil by (simp add: project_max_delay_def)
next
  case (Cons d ds)
  have set: "set (d # ds) = delay ` {r \<in> set rows. delay_ne_zero (delay r)}"
    using Cons[symmetric] by simp
  have a: "Late \<notin> set (d # ds) \<longleftrightarrow> (\<forall>r\<in>set rows. delay r \<noteq> Late)"
    unfolding set by force
  have b: "(\<forall>x\<in>set (d # ds). x = Late) \<longleftrightarrow> (\<forall>r\<in>set rows. delay r = Late \<or> delay r = Days 0)"
  proof
    assume l: "\<forall>x\<in>set (d # ds). x = Late"
    show "\<forall>r\<in>set rows. delay r = Late \<or> delay r = Days 0"
    proof
      fix r assume r: "r \<in> set rows"
      show "delay r = Late \<or> delay r = Days 0"
      proof (cases "delay_ne_zero (delay r)")
        case True
        then have "delay r \<in> set (d # ds)" using r unfolding set by blast
        then show ?thesis using l by blast
      next
        case False
        then show ?thesis by (cases "delay r") auto
      qed
    qed
  next
    assume "\<forall>r\<in>set rows. delay r = Late \<or> delay r = Days 0"
    then show "\<forall>x\<in>set (d # ds). x = Late" unfolding set by auto
  qed
  have "(\<exists>mx. project_max_delay rows = Inr mx) \<longleftrightarrow> (\<exists>mx. series_max d ds = Inr mx)"
    using Cons by (simp add: project_max_delay_def)
  then show ?thesis unfolding series_max_defined a b .
qed

text \<open>
  The value of the maximum delay: with numeric delays only, the largest nonzero delay, or
  0 when every delay is 0; with \<open>'late'\<close> as the only nonzero delay, \<open>'late'\<close>.
\<close>

lemma nonzero_delays_numeric:
  assumes "\<forall>r\<in>set rows. delay r \<noteq> Late"
  shows "\<exists>ds. map Days ds = map delay (filter (\<lambda>r. delay_ne_zero (delay r)) rows) \<and> 0 \<notin> set ds"
  using assms
proof (induction rows)
  case Nil
  then show ?case by simp
next
  case (Cons r rows)
  then obtain ds where ds: "map Days ds = map delay (filter (\<lambda>r. delay_ne_zero (delay r)) rows)"
    "0 \<notin> set ds" by auto
  obtain d where d: "delay r = Days d" using Cons.prems by (cases "delay r") auto
  show ?case
  proof (cases "d = 0")
    case True
    then show ?thesis using ds d by auto
  next
    case False
    then have "map Days (d # ds) = map delay (filter (\<lambda>r. delay_ne_zero (delay r)) (r # rows))"
      "0 \<notin> set (d # ds)" using ds d by auto
    then show ?thesis by blast
  qed
qed

lemma project_max_delay_numeric:
  assumes "\<forall>r\<in>set rows. delay r \<noteq> Late"
  shows "\<exists>ds. map Days ds = map delay (filter (\<lambda>r. delay_ne_zero (delay r)) rows)
     \<and> project_max_delay rows = Inr (Days (if ds = [] then 0 else Max (set ds)))"
proof -
  obtain ds where ds: "map Days ds = map delay (filter (\<lambda>r. delay_ne_zero (delay r)) rows)"
    using nonzero_delays_numeric[OF assms] by blast
  have "project_max_delay rows = Inr (Days (if ds = [] then 0 else Max (set ds)))"
  proof (cases ds)
    case Nil
    then show ?thesis using ds by (simp add: project_max_delay_def)
  next
    case (Cons d ds')
    then have "map delay (filter (\<lambda>r. delay_ne_zero (delay r)) rows) = Days d # map Days ds'"
      using ds by simp
    then show ?thesis using Cons series_max_is_max[of d ds']
      by (simp add: project_max_delay_def)
  qed
  then show ?thesis using ds by blast
qed

lemma project_max_delay_late:
  assumes "\<exists>r\<in>set rows. delay r = Late" and "\<forall>r\<in>set rows. delay r = Late \<or> delay r = Days 0"
  shows "project_max_delay rows = Inr Late"
proof -
  let ?ds = "map delay (filter (\<lambda>r. delay_ne_zero (delay r)) rows)"
  have all: "\<forall>x\<in>set ?ds. x = Late" using assms(2) by auto
  have "Late \<in> set ?ds" using assms(1) by force
  then obtain d ds where c: "?ds = d # ds" by (cases ?ds) auto
  then have "d = Late" "\<forall>x\<in>set ds. x = Late" using all by auto
  then show ?thesis using c series_max_all_late[of ds] by (simp add: project_max_delay_def)
qed

text \<open>
  Where a status is returned it follows the rule: Ready exactly when the total balance is
  0, otherwise Critical exactly when an item is missing or the maximum delay is
  \<open>'late'\<close>, otherwise Partial.
\<close>

lemma project_status_rule:
  assumes "project_rows df p \<noteq> []"
      and "project_max_delay (project_rows df p) = Inr mx"
  shows "\<exists>s. calculate_project_status df p = Inr (Some s)
     \<and> total_balance s = sum_list (map balance (project_rows df p))
     \<and> missing_items s = length (filter (\<lambda>r. allocated_qty r = 0) (project_rows df p))
     \<and> max_delay s = mx
     \<and> (status s = Ready \<longleftrightarrow> total_balance s = 0)
     \<and> (status s = Critical \<longleftrightarrow> total_balance s \<noteq> 0 \<and> (missing_items s > 0 \<or> max_delay s = Late))
     \<and> (status s = Partial \<longleftrightarrow> total_balance s \<noteq> 0 \<and> \<not> (missing_items s > 0 \<or> max_delay s = Late))"
proof -
  obtain s where s: "calculate_project_status df p = Inr (Some s)"
    using status_returns[OF assms] by blast
  have mx: "max_delay s = mx"
    using status_fields(2)[OF s] assms(2) by simp
  have st: "status s = fst (overall_status (total_balance s) (missing_items s) (max_delay s))"
    using status_values[OF s] by simp
  have "(status s = Ready \<longleftrightarrow> total_balance s = 0)"
       "(status s = Critical \<longleftrightarrow> total_balance s \<noteq> 0 \<and> (missing_items s > 0 \<or> max_delay s = Late))"
       "(status s = Partial \<longleftrightarrow> total_balance s \<noteq> 0 \<and> \<not> (missing_items s > 0 \<or> max_delay s = Late))"
    unfolding st overall_status_def by auto
  then show ?thesis using s mx status_values[OF s] by blast
qed

lemma project_status_rule_example:
  "map_sum id (map_option status) (calculate_project_status example_p1 ''P1'') = Inr (Some Critical)"
  by (simp add: calculate_project_status_def project_rows_def project_max_delay_def
      overall_status_def example_p1_def demand_line_def Let_def)

text \<open>
  Claim C2 says that a status is returned for every project with at least one row. A
  project with a delay of 5 days on one line and \<open>'late'\<close> on another has two rows and
  total balance 0, so the claim gives it the status Ready; the computation of its maximum
  delay raises \<open>TypeError\<close>, and no status is returned.
\<close>

theorem mixed_delays_raise:
  "project_rows mixed_delay_rows ''P1'' = mixed_delay_rows
   \<and> length mixed_delay_rows = 2
   \<and> sum_list (map balance mixed_delay_rows) = 0
   \<and> calculate_project_status mixed_delay_rows ''P1'' = Inl TypeError"
  by (simp add: calculate_project_status_def project_rows_def project_max_delay_def
      mixed_delay_rows_def demand_line_def Let_def)

text \<open>
  When no row has both balance 0 and allocated quantity 0, and no quantity is negative,
  the three counts add up to the number of rows.
\<close>

lemma item_counts_partition:
  assumes "\<forall>r\<in>set rows. 0 \<le> sint (balance r) \<and> 0 \<le> sint (allocated_qty r)
             \<and> (balance r = 0 \<longrightarrow> allocated_qty r \<noteq> 0)"
  shows "length (filter (\<lambda>r. balance r = 0) rows)
       + length (filter (\<lambda>r. sint (balance r) > 0 \<and> sint (allocated_qty r) > 0) rows)
       + length (filter (\<lambda>r. allocated_qty r = 0) rows) = length rows"
  using assms
proof (induction rows)
  case Nil
  then show ?case by simp
next
  case (Cons r rows)
  then have "0 \<le> sint (balance r)" "0 \<le> sint (allocated_qty r)"
    "balance r = 0 \<longrightarrow> allocated_qty r \<noteq> 0"
    by simp_all
  moreover have "sint (balance r) = 0 \<longleftrightarrow> balance r = 0"
    "sint (allocated_qty r) = 0 \<longleftrightarrow> allocated_qty r = 0"
    by (simp_all add: signed_eq_0_iff)
  moreover have "length (filter (\<lambda>r. balance r = 0) rows)
       + length (filter (\<lambda>r. sint (balance r) > 0 \<and> sint (allocated_qty r) > 0) rows)
       + length (filter (\<lambda>r. allocated_qty r = 0) rows) = length rows"
    using Cons by simp
  ultimately show ?case by (auto simp: less_le)
qed

lemma item_counts_sum:
  assumes "calculate_project_status df p = Inr (Some s)"
      and "\<forall>r\<in>set (project_rows df p). 0 \<le> sint (balance r) \<and> 0 \<le> sint (allocated_qty r)
             \<and> (balance r = 0 \<longrightarrow> allocated_qty r \<noteq> 0)"
  shows "ready_items s + partial_items s + missing_items s = total_items s"
  using status_values[OF assms(1)] item_counts_partition[OF assms(2)] by simp

text \<open>
  Claim C1 says that the Ready, Partial and Missing counts of a project add up to its
  number of rows. The three counts are separate filters, and a line that requires nothing
  (balance 0, allocated 0) passes both the Ready and the Missing filter: for a project
  with that single line the total is 1 and the counts are 1, 0 and 1.
\<close>

theorem zero_line_counted_twice:
  "map_sum id (map_option total_items) (calculate_project_status [zero_line] ''P1'') = Inr (Some 1)
   \<and> map_sum id (map_option ready_items) (calculate_project_status [zero_line] ''P1'') = Inr (Some 1)
   \<and> map_sum id (map_option partial_items) (calculate_project_status [zero_line] ''P1'') = Inr (Some 0)
   \<and> map_sum id (map_option missing_items) (calculate_project_status [zero_line] ''P1'') = Inr (Some 1)"
  by (simp add: calculate_project_status_def project_rows_def project_max_delay_def
      zero_line_def demand_line_def Let_def split: prod.split)

text \<open>
  Beside a partly covered line, the zero line makes the project Critical with one
  missing item, although each of the two lines is Ready or Partial.
\<close>

lemma zero_line_makes_critical:
  "map_sum id (map_option status) (calculate_project_status zero_and_partial_lines ''P1'')
     = Inr (Some Critical)
   \<and> map_sum id (map_option ready_items) (calculate_project_status zero_and_partial_lines ''P1'')
     = Inr (Some 1)
   \<and> map_sum id (map_option partial_items) (calculate_project_status zero_and_partial_lines ''P1'')
     = Inr (Some 1)
   \<and> map_sum id (map_option missing_items) (calculate_project_status zero_and_partial_lines ''P1'')
     = Inr (Some 1)
   \<and> map_sum id (map_option total_items) (calculate_project_status zero_and_partial_lines ''P1'')
     = Inr (Some 2)"
  by (simp add: calculate_project_status_def project_rows_def project_max_delay_def
      overall_status_def zero_and_partial_lines_def zero_line_def demand_line_def Let_def)

text \<open>
  Claim C3, amended: for every project for which \<open>calculate_project_status\<close> returns a
  result, the fulfillment percentage is the \<open>float64\<close> value of total allocated divided
  by total required times 100, computed from the two \<open>int64\<close> column sums, when the total
  required is positive, and exactly 0 when the total required is 0; when every row of the
  project has \<open>0 \<le> allocated \<le> required\<close> and the required quantities of the project
  add up to less than \<open>2^63\<close>, it lies in the interval from 0 to 100.
\<close>

theorem fulfillment_pct_bounds:
  assumes "calculate_project_status df p = Inr (Some s)"
  shows "total_req s = sum_list (map req_qty (project_rows df p))
     \<and> total_allocated s = sum_list (map allocated_qty (project_rows df p))
     \<and> (sint (total_req s) > 0 \<longrightarrow> fulfillment_pct s =
           float_mul (float_div (to_double (total_allocated s)) (to_double (total_req s))) 100)
     \<and> (total_req s = 0 \<longrightarrow> fulfillment_pct s = 0)
     \<and> ((\<forall>r\<in>set (project_rows df p).
            0 \<le> sint (allocated_qty r) \<and> sint (allocated_qty r) \<le> sint (req_qty r))
          \<and> sum_list (map (\<lambda>r. sint (req_qty r)) (project_rows df p)) < 2 ^ 63
          \<longrightarrow> 0 \<le> fulfillment_pct s \<and> fulfillment_pct s \<le> 100)"
proof -
  note v = status_values[OF assms]
  let ?rows = "project_rows df p"
  have pct: "fulfillment_pct s
      = (if sint (total_req s) > 0 then percentage (total_allocated s) (total_req s) else 0)"
    using v by simp
  have range: "0 \<le> fulfillment_pct s \<and> fulfillment_pct s \<le> 100"
    if h: "\<forall>r\<in>set ?rows. 0 \<le> sint (allocated_qty r) \<and> sint (allocated_qty r) \<le> sint (req_qty r)"
      and nowrap: "sum_list (map (\<lambda>r. sint (req_qty r)) ?rows) < 2 ^ 63"
  proof -
    have le: "sum_list (map (\<lambda>r. sint (allocated_qty r)) ?rows)
            \<le> sum_list (map (\<lambda>r. sint (req_qty r)) ?rows)"
      using h by (intro sum_list_mono) auto
    have a0: "0 \<le> sum_list (map (\<lambda>r. sint (allocated_qty r)) ?rows)"
      using h by (intro sum_list_nonneg) auto
    have "sint (sum_list (map req_qty ?rows)) = sum_list (map sint (map req_qty ?rows))"
      using h nowrap by (intro sint_sum_list) (auto simp: comp_def intro: order_trans)
    then have r: "sint (total_req s) = sum_list (map (\<lambda>r. sint (req_qty r)) ?rows)"
      using v by (simp add: comp_def)
    have "sint (sum_list (map allocated_qty ?rows)) = sum_list (map sint (map allocated_qty ?rows))"
      using h nowrap le by (intro sint_sum_list) (auto simp: comp_def)
    then have a: "sint (total_allocated s) = sum_list (map (\<lambda>r. sint (allocated_qty r)) ?rows)"
      using v by (simp add: comp_def)
    show ?thesis
    proof (cases "sint (total_req s) > 0")
      case True
      have "0 \<le> sint (total_allocated s)" "sint (total_allocated s) \<le> sint (total_req s)"
        using a r a0 le by simp_all
      from percentage_bounds[OF this True] show ?thesis using pct True by simp
    next
      case False
      then show ?thesis using pct by simp
    qed
  qed
  show ?thesis using v pct range by (simp add: percentage_def)
qed

theorem fulfillment_pct_bounds_witness:
  "\<exists>s. calculate_project_status example_p1 ''P1'' = Inr (Some s)
     \<and> list_all (\<lambda>r. 0 \<le> sint (allocated_qty r) \<and> sint (allocated_qty r) \<le> sint (req_qty r))
         (project_rows example_p1 ''P1'')
     \<and> sum_list (map (\<lambda>r. sint (req_qty r)) (project_rows example_p1 ''P1'')) = 15
     \<and> 0 \<le> fulfillment_pct s \<and> fulfillment_pct s \<le> 100"
proof -
  have rows: "project_rows example_p1 ''P1'' = example_p1"
    by (simp add: project_rows_def example_p1_def demand_line_def)
  have h1: "project_rows example_p1 ''P1'' \<noteq> []"
    unfolding rows by (simp add: example_p1_def)
  have h2: "project_max_delay (project_rows example_p1 ''P1'') = Inr (Days 0)"
    unfolding rows by (simp add: project_max_delay_def example_p1_def demand_line_def)
  obtain s where s: "calculate_project_status example_p1 ''P1'' = Inr (Some s)"
    using status_returns[OF h1 h2] by blast
  have req: "sum_list (map (\<lambda>r. sint (req_qty r)) example_p1) = 15"
    by (simp add: example_p1_def demand_line_def)
  have ok: "list_all (\<lambda>r. 0 \<le> sint (allocated_qty r) \<and> sint (allocated_qty r) \<le> sint (req_qty r))
              example_p1"
    by (simp add: example_p1_def demand_line_def)
  have "0 \<le> fulfillment_pct s \<and> fulfillment_pct s \<le> 100"
    using fulfillment_pct_bounds[OF s] ok req unfolding rows
    by (simp add: list_all_iff)
  then show ?thesis using s ok req unfolding rows by blast
qed

text \<open>
  The percentage of the example project, 10 of 15, is the \<open>float64\<close> number
  66.66666666666666, not two thirds of 100.
\<close>

lemma percentage_10_15: "percentage 10 15 = 2345624805922133 / 35184372088832"
  by code_simp

lemma fulfillment_pct_rounded:
  "map_sum id (map_option fulfillment_pct) (calculate_project_status example_p1 ''P1'')
     = Inr (Some (2345624805922133 / 35184372088832))"
  by (simp add: calculate_project_status_def project_rows_def project_max_delay_def
      overall_status_def example_p1_def demand_line_def Let_def percentage_10_15)

text \<open>
  Without the lower bound on the allocated quantity the percentage can be negative: a
  line with required 5, allocated -3 and balance 8 has a non-negative balance and
  allocated below required, and a fulfillment of -60.
\<close>

lemma percentage_minus_3_5: "percentage (- 3) 5 = - 60"
  by code_simp

theorem fulfillment_pct_negative:
  "0 \<le> sint (balance returned_line)
   \<and> sint (allocated_qty returned_line) \<le> sint (req_qty returned_line)
   \<and> balance returned_line = req_qty returned_line - allocated_qty returned_line
   \<and> map_sum id (map_option fulfillment_pct) (calculate_project_status [returned_line] ''P1'')
       = Inr (Some (- 60))"
  by (simp add: calculate_project_status_def project_rows_def project_max_delay_def
      overall_status_def returned_line_def demand_line_def Let_def percentage_minus_3_5)

text \<open>
  Without the bound on the sum the percentage can leave the interval too: two fully
  covered lines that require \<open>2^62\<close> each have the total required \<open>-2^63\<close> after the
  wrap-around, which is not positive, and the fulfillment 0.
\<close>

lemma fulfillment_pct_wraps:
  "list_all (\<lambda>r. 0 \<le> sint (allocated_qty r) \<and> sint (allocated_qty r) \<le> sint (req_qty r))
     wrapping_rows
   \<and> map_sum id (map_option (\<lambda>s. sint (total_req s))) (calculate_project_status wrapping_rows ''P1'')
       = Inr (Some (- (2 ^ 63)))
   \<and> map_sum id (map_option fulfillment_pct) (calculate_project_status wrapping_rows ''P1'')
       = Inr (Some 0)"
  by (simp add: calculate_project_status_def project_rows_def project_max_delay_def
      overall_status_def wrapping_rows_def demand_line_def Let_def)

section \<open>Properties of the material inquiry\<close>

lemma material_inquiry_values:
  assumes "material_inquiry df code = Some q"
  shows "item_data q = filter (\<lambda>r. item r = code) df"
    and "item_data q \<noteq> []"
    and "blocking_issues q = blocking_issues_of (item_data q)"
  using assms by (auto simp: material_inquiry_def Let_def split: list.splits)

lemma material_inquiry_returns:
  "filter (\<lambda>r. item r = code) df \<noteq> [] \<Longrightarrow> \<exists>q. material_inquiry df code = Some q"
  by (simp add: material_inquiry_def Let_def split: list.splits)

lemma stuck_in_qc_iff:
  "StuckInQC x \<in> set (blocking_issues_of rows)
     \<longleftrightarrow> (\<exists>r\<in>set rows. supply_type r = ''QC'') \<and> x = held_quantity ''QC'' rows"
  by (auto simp: blocking_issues_of_def held_quantity_def Let_def filter_empty_conv)

lemma in_gr_process_iff:
  "InGRProcess x \<in> set (blocking_issues_of rows)
     \<longleftrightarrow> (\<exists>r\<in>set rows. supply_type r = ''GR_in_process'') \<and> x = held_quantity ''GR_in_process'' rows"
  by (auto simp: blocking_issues_of_def held_quantity_def Let_def filter_empty_conv)

lemma on_delayed_pos_iff:
  "OnDelayedPOs x \<in> set (blocking_issues_of rows)
     \<longleftrightarrow> (\<exists>r\<in>set rows. supply_type r = ''PO'' \<and> delay r = Late)
       \<and> x = sum_list (map allocated_qty (filter (\<lambda>r. supply_type r = ''PO'' \<and> delay r = Late) rows))"
  by (auto simp: blocking_issues_of_def Let_def filter_empty_conv)

lemma need_pr_creation_iff:
  "NeedPRCreation x \<in> set (blocking_issues_of rows)
     \<longleftrightarrow> (\<exists>r\<in>set rows. supply_type r = ''PR'')
       \<and> x = sum_list (map balance (filter (\<lambda>r. supply_type r = ''PR'') rows))"
  by (auto simp: blocking_issues_of_def Let_def filter_empty_conv)

lemma held_quantity_nonzero:
  "held_quantity st rows \<noteq> 0 \<Longrightarrow> \<exists>r\<in>set rows. supply_type r = st"
  by (cases "filter (\<lambda>r. supply_type r = st) rows = []")
     (auto simp: held_quantity_def filter_empty_conv)

lemma held_quantity_positive:
  "sint (held_quantity st rows) > 0 \<Longrightarrow> \<exists>r\<in>set rows. supply_type r = st"
  by (rule held_quantity_nonzero) auto

text \<open>
  Claim C5, amended: for every item code with at least one row, the four blocking-issue
  rules fire independently of each other. The stuck-in-QC message is present exactly when
  the item has a quality-control row, so in particular whenever the quantity held in
  quality control is positive; the pending-GR message exactly when the item has a
  goods-receipt-in-process row, so in particular whenever that quantity is positive; the
  delayed-PO message exactly when some purchase-order row has the \<open>'late'\<close> delay; the
  PR-creation message exactly when some purchase-requisition row exists.
\<close>

theorem blocking_issues_rules:
  assumes "material_inquiry df code = Some q"
  shows "item_data q = filter (\<lambda>r. item r = code) df
     \<and> ((\<exists>x. StuckInQC x \<in> set (blocking_issues q)) \<longleftrightarrow> (\<exists>r\<in>set (item_data q). supply_type r = ''QC''))
     \<and> ((\<exists>x. InGRProcess x \<in> set (blocking_issues q)) \<longleftrightarrow> (\<exists>r\<in>set (item_data q). supply_type r = ''GR_in_process''))
     \<and> ((\<exists>x. OnDelayedPOs x \<in> set (blocking_issues q))
           \<longleftrightarrow> (\<exists>r\<in>set (item_data q). supply_type r = ''PO'' \<and> delay r = Late))
     \<and> ((\<exists>x. NeedPRCreation x \<in> set (blocking_issues q)) \<longleftrightarrow> (\<exists>r\<in>set (item_data q). supply_type r = ''PR''))
     \<and> (sint (held_quantity ''QC'' (item_data q)) > 0 \<longrightarrow> (\<exists>x. StuckInQC x \<in> set (blocking_issues q)))
     \<and> (sint (held_quantity ''GR_in_process'' (item_data q)) > 0
          \<longrightarrow> (\<exists>x. InGRProcess x \<in> set (blocking_issues q)))"
proof -
  note v = material_inquiry_values[OF assms]
  show ?thesis
    unfolding v(3)
    using v(1) held_quantity_positive[of "''QC''" "item_data q"]
      held_quantity_positive[of "''GR_in_process''" "item_data q"]
    by (simp add: stuck_in_qc_iff in_gr_process_iff on_delayed_pos_iff need_pr_creation_iff)
qed

theorem blocking_issues_rules_witness:
  "map_option blocking_issues (material_inquiry itm1_rows ''ITM1'') = Some [StuckInQC 3, NeedPRCreation 2]"
proof -
  have f: "filter (\<lambda>r. item r = ''ITM1'') itm1_rows = itm1_rows"
    by (simp add: itm1_rows_def demand_line_def)
  have "filter (\<lambda>r. item r = ''ITM1'') itm1_rows \<noteq> []"
    unfolding f by (simp add: itm1_rows_def)
  then obtain q where q: "material_inquiry itm1_rows ''ITM1'' = Some q"
    using material_inquiry_returns by blast
  have "item_data q = itm1_rows"
    using blocking_issues_rules[OF q] f by simp
  then have "blocking_issues q = blocking_issues_of itm1_rows"
    using material_inquiry_values(3)[OF q] by simp
  also have "\<dots> = [StuckInQC 3, NeedPRCreation 2]"
    by (simp add: blocking_issues_of_def itm1_rows_def demand_line_def)
  finally show ?thesis using q by simp
qed

text \<open>
  The QC message does not wait for a positive quantity: an item whose only QC row has
  allocated quantity 0 holds nothing in quality control and still gets the message.
\<close>

theorem qc_message_for_zero_quantity:
  "held_quantity ''QC'' [qc_zero_line] = 0
   \<and> map_option blocking_issues (material_inquiry [qc_zero_line] ''ITM1'') = Some [StuckInQC 0]"
  by (simp add: held_quantity_def material_inquiry_def blocking_issues_of_def qc_zero_line_def
      demand_line_def Let_def)

section \<open>Properties of the supplier performance\<close>

lemma numeric_delays_Inr:
  "numeric_delays ds = Inr xs \<Longrightarrow> map Days xs = ds"
proof (induction ds arbitrary: xs rule: numeric_delays.induct)
  case 1
  then show ?case by simp
next
  case (2 ds)
  then show ?case by simp
next
  case (3 d ds)
  then show ?case by (auto split: sum.splits)
qed

lemma numeric_delays_numeric:
  "Late \<notin> set ds \<Longrightarrow> \<exists>xs. numeric_delays ds = Inr xs"
proof (induction ds rule: numeric_delays.induct)
  case 1
  then show ?case by simp
next
  case (2 ds)
  then show ?case by simp
next
  case (3 d ds)
  then show ?case by auto
qed

lemma numeric_delays_late:
  "Late \<in> set ds \<Longrightarrow> numeric_delays ds = Inl TypeError"
  by (induction ds rule: numeric_delays.induct) (auto split: sum.splits)

lemma agg_group_Inr:
  assumes "agg_group k g = Inr s"
  shows "\<exists>ds. map Days ds = map delay g
     \<and> stat_supplier s = k
     \<and> delayed_items s = length g
     \<and> avg_delay_days s = round_to_double (of_int (sum_list ds) / of_nat (length ds))
     \<and> max_delay_days s = Max (set ds)
     \<and> total_qty_delayed s = sum_list (map allocated_qty g)"
proof -
  from assms obtain ds where ds: "numeric_delays (map delay g) = Inr ds"
    and s: "s = \<lparr> stat_supplier = k, delayed_items = length ds,
          avg_delay_days = round_to_double (of_int (sum_list ds) / of_nat (length ds)),
          max_delay_days = Max (set ds),
          total_qty_delayed = sum_list (map allocated_qty g) \<rparr>"
    by (auto simp: agg_group_def split: sum.splits)
  have m: "map Days ds = map delay g" using numeric_delays_Inr[OF ds] .
  then have "length ds = length g" by (metis length_map)
  with m s show ?thesis by auto
qed

lemma agg_groups_Inr:
  "agg_groups ks rows = Inr ss \<Longrightarrow>
     map stat_supplier ss = ks
     \<and> (\<forall>s\<in>set ss. agg_group (stat_supplier s) (filter (\<lambda>r. supplier r = Some (stat_supplier s)) rows) = Inr s)"
proof (induction ks arbitrary: ss)
  case Nil
  then show ?case by simp
next
  case (Cons k ks)
  from Cons.prems obtain s ss' where
    s: "agg_group k (filter (\<lambda>r. supplier r = Some k) rows) = Inr s"
    and ss': "agg_groups ks rows = Inr ss'" and eq: "ss = s # ss'"
    by (auto split: sum.splits)
  have "stat_supplier s = k" using s by (auto simp: agg_group_def split: sum.splits)
  with Cons.IH[OF ss'] s eq show ?case by auto
qed

lemma agg_groups_numeric:
  "\<forall>r\<in>set rows. delay r \<noteq> Late \<Longrightarrow> \<exists>ss. agg_groups ks rows = Inr ss"
proof (induction ks)
  case Nil
  then show ?case by simp
next
  case (Cons k ks)
  then have "Late \<notin> set (map delay (filter (\<lambda>r. supplier r = Some k) rows))" by auto
  then obtain ds where "numeric_delays (map delay (filter (\<lambda>r. supplier r = Some k) rows)) = Inr ds"
    using numeric_delays_numeric by blast
  then have "\<exists>s. agg_group k (filter (\<lambda>r. supplier r = Some k) rows) = Inr s"
    by (simp add: agg_group_def)
  with Cons show ?case by auto
qed

lemma numeric_delays_error:
  "numeric_delays ds = Inl e \<Longrightarrow> e = TypeError"
  by (induction ds rule: numeric_delays.induct) (auto split: sum.splits)

lemma agg_group_error:
  "agg_group k g = Inl e \<Longrightarrow> e = TypeError"
  by (auto simp: agg_group_def split: sum.splits dest: numeric_delays_error)

lemma agg_groups_late:
  "\<exists>r\<in>set rows. delay r = Late \<and> supplier r = Some k \<Longrightarrow> k \<in> set ks \<Longrightarrow>
     agg_groups ks rows = Inl TypeError"
proof (induction ks)
  case Nil
  then show ?case by simp
next
  case (Cons k' ks)
  show ?case
  proof (cases "k' = k")
    case True
    from Cons.prems(1) have "Late \<in> set (map delay (filter (\<lambda>r. supplier r = Some k) rows))"
      by force
    then have "agg_group k (filter (\<lambda>r. supplier r = Some k) rows) = Inl TypeError"
      by (simp add: agg_group_def numeric_delays_late)
    with True show ?thesis by simp
  next
    case False
    with Cons have "agg_groups ks rows = Inl TypeError" by simp
    then show ?thesis
      by (auto split: sum.splits dest: agg_group_error)
  qed
qed

text \<open>
  Sorting keeps the rows and puts them in descending order of the column, whatever the
  order among equal keys.
\<close>

lemma sort_values_desc_props:
  "set (sort_values_desc tie col rows) = set rows"
  "sorted_wrt (\<lambda>a b. col a \<ge> col b) (sort_values_desc tie col rows)"
  "distinct (map g (sort_values_desc tie col rows)) = distinct (map g rows)"
proof -
  show "set (sort_values_desc tie col rows) = set rows"
    by (simp add: sort_values_desc_def)
  have "sorted (map (\<lambda>s. (- col s, tie s)) (sort_values_desc tie col rows))"
    unfolding sort_values_desc_def by (rule sorted_sort_key)
  then have "sorted_wrt (\<lambda>a b. (- col a, tie a) \<le> (- col b, tie b)) (sort_values_desc tie col rows)"
    by (simp add: sorted_map)
  then show "sorted_wrt (\<lambda>a b. col a \<ge> col b) (sort_values_desc tie col rows)"
    by (rule sorted_wrt_mono_rel[rotated]) (auto simp: less_eq_prod_def)
  show "distinct (map g (sort_values_desc tie col rows)) = distinct (map g rows)"
    by (simp add: sort_values_desc_def distinct_map)
qed

lemma supplier_performance_Inr:
  assumes "supplier_performance tie df = Inr (Some stats)"
  shows "\<exists>ss. agg_groups (sort (remdups (List.map_filter supplier
                  (filter (\<lambda>r. delay_ne_zero (delay r)) (filter (\<lambda>r. supplier r \<noteq> None) df)))))
               (filter (\<lambda>r. delay_ne_zero (delay r)) (filter (\<lambda>r. supplier r \<noteq> None) df)) = Inr ss
            \<and> stats = sort_values_desc tie avg_delay_days ss"
  using assms
  by (auto simp: supplier_performance_def Let_def split: if_splits sum.splits)

lemma delayed_group:
  "filter (\<lambda>r. supplier r = Some k)
     (filter (\<lambda>r. delay_ne_zero (delay r)) (filter (\<lambda>r. supplier r \<noteq> None) df))
   = delayed_rows_of df k"
  by (induction df) (auto simp: delayed_rows_of_def)

lemma set_map_filter_Some:
  "set (List.map_filter f xs) = {y. \<exists>x\<in>set xs. f x = Some y}"
  by (induction xs) (auto simp: List.map_filter_simps split: option.splits)

lemma delayed_keys:
  "set (sort (remdups (List.map_filter supplier
          (filter (\<lambda>r. delay_ne_zero (delay r)) (filter (\<lambda>r. supplier r \<noteq> None) df)))))
   = {k. \<exists>r\<in>set df. supplier r = Some k \<and> delay_ne_zero (delay r)}"
  by (auto simp: set_map_filter_Some)

text \<open>
  The view has a result exactly when some row has a supplier and no row with a supplier
  has the delay \<open>'late'\<close>; with such a row it raises \<open>TypeError\<close>.
\<close>

lemma supplier_performance_returns:
  "(\<exists>stats. supplier_performance tie df = Inr (Some stats))
     \<longleftrightarrow> (\<exists>r\<in>set df. supplier r \<noteq> None) \<and> (\<forall>r\<in>set df. supplier r \<noteq> None \<longrightarrow> delay r \<noteq> Late)"
  "(\<exists>r\<in>set df. supplier r \<noteq> None \<and> delay r = Late) \<Longrightarrow> supplier_performance tie df = Inl TypeError"
proof -
  let ?delayed = "filter (\<lambda>r. delay_ne_zero (delay r)) (filter (\<lambda>r. supplier r \<noteq> None) df)"
  let ?keys = "sort (remdups (List.map_filter supplier ?delayed))"
  have nonempty: "filter (\<lambda>r. supplier r \<noteq> None) df \<noteq> [] \<longleftrightarrow> (\<exists>r\<in>set df. supplier r \<noteq> None)"
    by (simp add: filter_empty_conv)
  have late: "supplier_performance tie df = Inl TypeError"
    if "\<exists>r\<in>set df. supplier r \<noteq> None \<and> delay r = Late"
  proof -
    from that obtain r k where r: "r \<in> set df" "supplier r = Some k" "delay r = Late" by auto
    then have "r \<in> set ?delayed" by simp
    moreover have "k \<in> set ?keys" using r unfolding delayed_keys by force
    ultimately have "agg_groups ?keys ?delayed = Inl TypeError"
      using r agg_groups_late[of ?delayed k ?keys] by blast
    then show ?thesis using that nonempty
      by (auto simp: supplier_performance_def Let_def)
  qed
  show "(\<exists>stats. supplier_performance tie df = Inr (Some stats))
     \<longleftrightarrow> (\<exists>r\<in>set df. supplier r \<noteq> None) \<and> (\<forall>r\<in>set df. supplier r \<noteq> None \<longrightarrow> delay r \<noteq> Late)"
  proof (cases "\<forall>r\<in>set df. supplier r \<noteq> None \<longrightarrow> delay r \<noteq> Late")
    case True
    then have "\<forall>r\<in>set ?delayed. delay r \<noteq> Late" by auto
    then obtain ss where "agg_groups ?keys ?delayed = Inr ss"
      using agg_groups_numeric by blast
    then show ?thesis using True nonempty
      by (auto simp: supplier_performance_def Let_def)
  next
    case False
    then have "supplier_performance tie df = Inl TypeError" using late by blast
    then show ?thesis using False by auto
  qed
  show "(\<exists>r\<in>set df. supplier r \<noteq> None \<and> delay r = Late) \<Longrightarrow> supplier_performance tie df = Inl TypeError"
    using late .
qed

text \<open>
  On a table without a \<open>'late'\<close> delay on a supplier's row the result is what the claim
  says: one row for each supplier that has a row with nonzero delay, with the number of
  these rows, the mean and the maximum of their delays and the sum of their allocated
  quantities, in descending order of mean delay.
\<close>

lemma supplier_performance_result:
  assumes "supplier_performance tie df = Inr (Some stats)"
  shows "set (map stat_supplier stats) = {k. \<exists>r\<in>set df. supplier r = Some k \<and> delay_ne_zero (delay r)}
     \<and> distinct (map stat_supplier stats)
     \<and> (\<forall>s\<in>set stats. \<exists>ds.
            map Days ds = map delay (delayed_rows_of df (stat_supplier s))
          \<and> delayed_items s = length (delayed_rows_of df (stat_supplier s))
          \<and> avg_delay_days s = round_to_double (of_int (sum_list ds) / of_nat (length ds))
          \<and> max_delay_days s \<in> set ds \<and> (\<forall>d\<in>set ds. d \<le> max_delay_days s)
          \<and> total_qty_delayed s = sum_list (map allocated_qty (delayed_rows_of df (stat_supplier s))))
     \<and> sorted_wrt (\<lambda>a b. avg_delay_days a \<ge> avg_delay_days b) stats"
proof -
  let ?delayed = "filter (\<lambda>r. delay_ne_zero (delay r)) (filter (\<lambda>r. supplier r \<noteq> None) df)"
  let ?keys = "sort (remdups (List.map_filter supplier ?delayed))"
  obtain ss where ss: "agg_groups ?keys ?delayed = Inr ss"
    and stats: "stats = sort_values_desc tie avg_delay_days ss"
    using supplier_performance_Inr[OF assms] by blast
  note g = agg_groups_Inr[OF ss]
  have names: "map stat_supplier ss = ?keys" using g by simp
  have 1: "set (map stat_supplier stats) = {k. \<exists>r\<in>set df. supplier r = Some k \<and> delay_ne_zero (delay r)}"
  proof -
    have "set (map stat_supplier stats) = stat_supplier ` set ss"
      unfolding stats by (simp add: sort_values_desc_props(1))
    also have "\<dots> = set ?keys" using names by (metis set_map)
    finally show ?thesis by (simp only: delayed_keys)
  qed
  have 2: "distinct (map stat_supplier stats)"
    unfolding stats sort_values_desc_props(3) names by simp
  have 3: "\<exists>ds. map Days ds = map delay (delayed_rows_of df (stat_supplier s))
          \<and> delayed_items s = length (delayed_rows_of df (stat_supplier s))
          \<and> avg_delay_days s = round_to_double (of_int (sum_list ds) / of_nat (length ds))
          \<and> max_delay_days s \<in> set ds \<and> (\<forall>d\<in>set ds. d \<le> max_delay_days s)
          \<and> total_qty_delayed s = sum_list (map allocated_qty (delayed_rows_of df (stat_supplier s)))"
    if "s \<in> set stats" for s
  proof -
    from that have s: "s \<in> set ss" unfolding stats by (simp add: sort_values_desc_props(1))
    then have "agg_group (stat_supplier s) (delayed_rows_of df (stat_supplier s)) = Inr s"
      using g delayed_group by simp
    from agg_group_Inr[OF this] obtain ds where
      ds: "map Days ds = map delay (delayed_rows_of df (stat_supplier s))"
      and rest: "delayed_items s = length (delayed_rows_of df (stat_supplier s))"
        "avg_delay_days s = round_to_double (of_int (sum_list ds) / of_nat (length ds))"
        "max_delay_days s = Max (set ds)"
        "total_qty_delayed s = sum_list (map allocated_qty (delayed_rows_of df (stat_supplier s)))"
      by blast
    have "stat_supplier s \<in> set ?keys" using s names by (metis image_eqI set_map)
    then have "delayed_rows_of df (stat_supplier s) \<noteq> []"
      unfolding delayed_keys by (auto simp: delayed_rows_of_def filter_empty_conv)
    then have "ds \<noteq> []" using ds by (metis map_is_Nil_conv)
    then have "Max (set ds) \<in> set ds" "\<forall>d\<in>set ds. d \<le> Max (set ds)"
      by simp_all
    with ds rest show ?thesis by auto
  qed
  have 4: "sorted_wrt (\<lambda>a b. avg_delay_days a \<ge> avg_delay_days b) stats"
    unfolding stats by (rule sort_values_desc_props(2))
  show ?thesis using 1 2 3 4 by blast
qed

lemma supplier_rows_stats:
  "supplier_performance (\<lambda>s. 0) supplier_rows = Inr (Some
     [\<lparr>stat_supplier = ''Bolt'', delayed_items = 1, avg_delay_days = 10,
        max_delay_days = 10, total_qty_delayed = 5\<rparr>,
      \<lparr>stat_supplier = ''Acme'', delayed_items = 2, avg_delay_days = 3,
        max_delay_days = 4, total_qty_delayed = 12\<rparr>])"
  by code_simp

text \<open>
  Claim C4 fails on the code where a supplier's row has the delay \<open>'late'\<close>. The filter
  \<open>delay != 0\<close> keeps such a row as a delayed row, so the claim lists its supplier; the
  aggregation then takes the mean of the group's delays and raises \<open>TypeError\<close>, and the
  view has no result at all, also for the other suppliers. On the table of two purchase-order
  lines, one 4 days late and one with the delay \<open>'late'\<close>, both suppliers have a row with
  nonzero delay and the view raises.
\<close>

theorem late_delay_breaks_supplier_performance:
  "{k. \<exists>r\<in>set late_supplier_rows. supplier r = Some k \<and> delay_ne_zero (delay r)} = {''Acme'', ''Bolt''}
   \<and> supplier_performance tie late_supplier_rows = Inl TypeError"
proof -
  have "{k. \<exists>r\<in>set late_supplier_rows. supplier r = Some k \<and> delay_ne_zero (delay r)}
          = {''Acme'', ''Bolt''}"
    by (auto simp: late_supplier_rows_def demand_line_def)
  moreover have "supplier_performance tie late_supplier_rows = Inl TypeError"
    by (simp add: supplier_performance_def agg_group_def late_supplier_rows_def demand_line_def
        List.map_filter_simps Let_def)
  ultimately show ?thesis by simp
qed

section \<open>Properties of the push-to-production view\<close>

lemma filtered_df_selected: "filtered_df df ft selected \<noteq> [] \<Longrightarrow> selected \<noteq> []"
  by (auto simp: filtered_df_def)

lemma fulfillment_assigned_iff:
  "fulfillment_of rows \<noteq> None \<longleftrightarrow> rows \<noteq> [] \<and> sint (sum_list (map req_qty rows)) > 0"
  by (simp add: fulfillment_of_def)

lemma readiness_verdict_assigned:
  "readiness_verdict b (Some f) =
     Inr (if b = 0 \<and> f \<ge> 100 then AllClear else if b \<le> 3 \<and> f \<ge> 90 then AlmostReady else NotReady)"
  by (simp add: readiness_verdict_def py_and_def at_least_def read_local_def)

lemma readiness_verdict_unassigned:
  "readiness_verdict b None = (if b \<le> 3 then Inl UnboundLocalError else Inr NotReady)"
  by (simp add: readiness_verdict_def py_and_def at_least_def read_local_def)

lemma push_view_values:
  assumes "show_push_to_production df ft selected = Inr (Some v)"
  shows "view_qc v = qc_items (filtered_df df ft selected)"
    and "view_gr v = gr_items (filtered_df df ft selected)"
    and "view_wip v = wip_items (filtered_df df ft selected)"
    and "view_allocate v = allocate_items selected (filtered_df df ft selected)"
    and "view_missing v = missing_rows (filtered_df df ft selected)"
    and "view_fulfillment v = fulfillment_of (filtered_df df ft selected)"
    and "view_total_blocking v = length (view_qc v) + length (view_gr v) + length (view_missing v)"
    and "readiness_verdict (view_total_blocking v) (view_fulfillment v) = Inr (view_verdict v)"
  using assms
  by (auto simp: show_push_to_production_def Let_def split: if_splits sum.splits)

lemma push_view_returns:
  assumes "filtered_df df ft selected \<noteq> []"
      and "readiness_verdict (length (qc_items (filtered_df df ft selected))
             + length (gr_items (filtered_df df ft selected))
             + length (missing_rows (filtered_df df ft selected)))
            (fulfillment_of (filtered_df df ft selected)) = Inr x"
  shows "\<exists>v. show_push_to_production df ft selected = Inr (Some v)"
  using assms filtered_df_selected[OF assms(1)]
  by (simp add: show_push_to_production_def Let_def)

text \<open>
  The needs-reallocation list holds the rows of the selection whose supply type is
  \<open>inventory\<close> and whose source is neither \<open>free_stock\<close> nor one of the values
  picked in the filter widget.
\<close>

lemma needs_reallocation_rule:
  "r \<in> set (allocate_items selected (filtered_df df ft selected))
     \<longleftrightarrow> r \<in> set (filtered_df df ft selected) \<and> supply_type r = ''inventory''
         \<and> source r \<noteq> ''free_stock'' \<and> source r \<notin> set selected"
  by (auto simp: allocate_items_def)

text \<open>
  The example of the specification: with \<open>ProjA\<close> selected by SEC order, the inventory
  row whose source is \<open>ProjB\<close> is listed and the row whose source is \<open>free_stock\<close>
  is not.
\<close>

lemma needs_reallocation_example:
  "map_sum id (map_option view_allocate) (show_push_to_production realloc_rows SEC_Order [''ProjA''])
     = Inr (Some [demand_line ''ProjA'' ''ITM1'' 5 5 0 ''inventory'' ''ProjB'' ''A-1'' (Days 0)])"
  by (simp add: show_push_to_production_def filtered_df_def fulfillment_of_def qc_items_def
      gr_items_def missing_rows_def allocate_items_def readiness_verdict_assigned
      realloc_rows_def demand_line_def Let_def)

text \<open>
  Claim C6 fails on the code when the rows are selected by product or by SEC number. The
  picked values are then product names or SEC numbers, not project identifiers, and the
  test \<open>~source.isin(selected)\<close> compares the source project with them. A line of
  project \<open>ProjA\<close> covered from the inventory of \<open>ProjA\<close> itself, selected by its
  product \<open>Widget\<close>, is listed as needing reallocation from another job, although its
  source is the project of the selection.
\<close>

theorem own_stock_listed_for_reallocation:
  "filtered_df [own_stock_line] Product [''Widget''] = [own_stock_line]
   \<and> map sec_order (filtered_df [own_stock_line] Product [''Widget'']) = [''ProjA'']
   \<and> supply_type own_stock_line = ''inventory''
   \<and> source own_stock_line = ''ProjA''
   \<and> map_sum id (map_option view_allocate) (show_push_to_production [own_stock_line] Product [''Widget''])
       = Inr (Some [own_stock_line])"
  by (simp add: show_push_to_production_def filtered_df_def fulfillment_of_def qc_items_def
      gr_items_def missing_rows_def allocate_items_def readiness_verdict_assigned
      own_stock_line_def demand_line_def Let_def)

text \<open>
  Whenever the view produces a verdict, and it does for every non-empty selection whose
  fulfillment is computed, the verdict is "all clear" when the blocker count (QC rows, GR
  rows and missing rows; neither WIP nor reallocation rows) is 0 and the fulfillment is at
  least 100, "almost ready" when the blocker count is at most 3 and the fulfillment is at
  least 90, and "not ready" otherwise.
\<close>

lemma readiness_verdict_rule:
  "(filtered_df df ft selected \<noteq> [] \<and> fulfillment_of (filtered_df df ft selected) \<noteq> None
      \<longrightarrow> (\<exists>v. show_push_to_production df ft selected = Inr (Some v)))
   \<and> (\<forall>v. show_push_to_production df ft selected = Inr (Some v) \<longrightarrow>
         view_fulfillment v = fulfillment_of (filtered_df df ft selected)
       \<and> view_total_blocking v = length (qc_items (filtered_df df ft selected))
            + length (gr_items (filtered_df df ft selected))
            + length (missing_rows (filtered_df df ft selected))
       \<and> view_verdict v =
           (if view_total_blocking v = 0 \<and> (\<exists>f. view_fulfillment v = Some f \<and> f \<ge> 100) then AllClear
            else if view_total_blocking v \<le> 3 \<and> (\<exists>f. view_fulfillment v = Some f \<and> f \<ge> 90)
              then AlmostReady
            else NotReady))"
proof (intro conjI allI impI)
  assume a: "filtered_df df ft selected \<noteq> [] \<and> fulfillment_of (filtered_df df ft selected) \<noteq> None"
  then obtain f where f: "fulfillment_of (filtered_df df ft selected) = Some f" by auto
  show "\<exists>v. show_push_to_production df ft selected = Inr (Some v)"
    using a push_view_returns[of df ft selected] readiness_verdict_assigned f by metis
next
  fix v assume v: "show_push_to_production df ft selected = Inr (Some v)"
  note pv = push_view_values[OF v]
  show "view_fulfillment v = fulfillment_of (filtered_df df ft selected)" by (rule pv(6))
  show "view_total_blocking v = length (qc_items (filtered_df df ft selected))
            + length (gr_items (filtered_df df ft selected))
            + length (missing_rows (filtered_df df ft selected))"
    using pv(1,2,5,7) by simp
  show "view_verdict v =
           (if view_total_blocking v = 0 \<and> (\<exists>f. view_fulfillment v = Some f \<and> f \<ge> 100) then AllClear
            else if view_total_blocking v \<le> 3 \<and> (\<exists>f. view_fulfillment v = Some f \<and> f \<ge> 90)
              then AlmostReady
            else NotReady)"
  proof (cases "view_fulfillment v")
    case None
    then show ?thesis using pv(8)
      by (simp add: readiness_verdict_unassigned split: if_splits)
  next
    case (Some f)
    then show ?thesis using pv(8)
      by (auto simp: readiness_verdict_assigned split: if_splits)
  qed
qed

text \<open>
  The fulfillment the verdict compares is the \<open>float64\<close> percentage: the example
  project, with one missing line and 66.66666666666666 percent, is "not ready".
\<close>

lemma example_p1_not_ready:
  "map_sum id (map_option view_verdict) (show_push_to_production example_p1 SEC_Order [''P1''])
     = Inr (Some NotReady)
   \<and> map_sum id (map_option view_fulfillment) (show_push_to_production example_p1 SEC_Order [''P1''])
     = Inr (Some (Some (2345624805922133 / 35184372088832)))"
  by (simp add: show_push_to_production_def filtered_df_def fulfillment_of_def qc_items_def
      gr_items_def missing_rows_def readiness_verdict_assigned percentage_10_15
      example_p1_def demand_line_def Let_def)

text \<open>
  Claim C7 fails on the code for a non-empty selection whose total required quantity is
  not positive and that has at most 3 blockers. The claim's verdict for it is "not ready"
  (or "almost ready"), and the view itself shows the fulfillment "N/A" for it (source
  lines 656 to 660), but the verdict reads the variable \<open>fulfillment\<close> that was never
  assigned and raises \<open>UnboundLocalError\<close>. A goods-receipt line that requires
  nothing is one blocker, and the view ends in the exception instead of a verdict.
\<close>

theorem verdict_raises_without_requirement:
  "filtered_df [gr_zero_line] SEC_Order [''P1''] = [gr_zero_line]
   \<and> length (qc_items [gr_zero_line]) + length (gr_items [gr_zero_line])
       + length (missing_rows [gr_zero_line]) = 1
   \<and> fulfillment_of [gr_zero_line] = None
   \<and> show_push_to_production [gr_zero_line] SEC_Order [''P1''] = Inl UnboundLocalError"
  by (simp add: show_push_to_production_def filtered_df_def fulfillment_of_def qc_items_def
      gr_items_def missing_rows_def readiness_verdict_unassigned
      gr_zero_line_def demand_line_def Let_def)

text \<open>
  Claim C8, amended: the three lists selected by supply type (QC-held, GR-pending,
  needs-reallocation) are pairwise disjoint. The WIP list is selected by locater and the
  missing list by quantities, and they can share rows with the other lists.
\<close>

theorem supply_type_buckets_disjoint:
  "set (qc_items (filtered_df df ft selected)) \<inter> set (gr_items (filtered_df df ft selected)) = {}
   \<and> set (qc_items (filtered_df df ft selected))
       \<inter> set (allocate_items selected (filtered_df df ft selected)) = {}
   \<and> set (gr_items (filtered_df df ft selected))
       \<inter> set (allocate_items selected (filtered_df df ft selected)) = {}"
  by (auto simp: qc_items_def gr_items_def allocate_items_def)

text \<open>A quality-control row stored at the WIP locater is in both the QC and the WIP list.\<close>

theorem qc_row_also_in_wip:
  "map_sum id (map_option view_qc) (show_push_to_production [qc_wip_line] SEC_Order [''P1''])
     = Inr (Some [qc_wip_line])
   \<and> map_sum id (map_option view_wip) (show_push_to_production [qc_wip_line] SEC_Order [''P1''])
     = Inr (Some [qc_wip_line])"
  by (simp add: show_push_to_production_def filtered_df_def fulfillment_of_def qc_items_def
      gr_items_def missing_rows_def wip_items_def readiness_verdict_assigned
      qc_wip_line_def demand_line_def Let_def)

text \<open>
  Claim C10, amended: \<open>fulfillment\<close> is assigned only when the selection's total
  required quantity is positive. For a non-empty selection where it is not, the verdict
  raises \<open>UnboundLocalError\<close> when there are at most 3 blockers; with more than 3
  blockers both conditions are decided by their left operands, the variable is never
  read, and the verdict is "not ready".
\<close>

theorem verdict_without_fulfillment:
  assumes "filtered_df df ft selected \<noteq> []"
      and "\<not> sint (sum_list (map req_qty (filtered_df df ft selected))) > 0"
  shows "fulfillment_of (filtered_df df ft selected) = None
     \<and> (length (qc_items (filtered_df df ft selected)) + length (gr_items (filtered_df df ft selected))
          + length (missing_rows (filtered_df df ft selected)) \<le> 3
        \<longrightarrow> show_push_to_production df ft selected = Inl UnboundLocalError)
     \<and> (length (qc_items (filtered_df df ft selected)) + length (gr_items (filtered_df df ft selected))
          + length (missing_rows (filtered_df df ft selected)) > 3
        \<longrightarrow> map_sum id (map_option view_verdict) (show_push_to_production df ft selected)
             = Inr (Some NotReady))"
proof -
  have none: "fulfillment_of (filtered_df df ft selected) = None"
    using assms(2) by (simp add: fulfillment_of_def)
  show ?thesis
    using assms(1) filtered_df_selected[OF assms(1)] none
    by (simp add: show_push_to_production_def Let_def readiness_verdict_unassigned)
qed

theorem verdict_without_fulfillment_witness:
  "show_push_to_production [zero_line] SEC_Order [''P1''] = Inl UnboundLocalError"
proof -
  have rows: "filtered_df [zero_line] SEC_Order [''P1''] = [zero_line]"
    by (simp add: filtered_df_def zero_line_def demand_line_def)
  have h1: "filtered_df [zero_line] SEC_Order [''P1''] \<noteq> []"
    unfolding rows by simp
  have h2: "\<not> sint (sum_list (map req_qty (filtered_df [zero_line] SEC_Order [''P1'']))) > 0"
    unfolding rows by (simp add: zero_line_def demand_line_def)
  have b: "length (qc_items [zero_line]) + length (gr_items [zero_line])
             + length (missing_rows [zero_line]) = 0"
    by (simp add: qc_items_def gr_items_def missing_rows_def zero_line_def demand_line_def)
  show ?thesis
    using verdict_without_fulfillment[OF h1 h2] unfolding rows b by simp
qed

text \<open>
  Four quality-control rows that require nothing: the total required quantity is 0, and
  the view ends with the verdict "not ready" instead of an exception.
\<close>

theorem four_blockers_not_ready:
  "filtered_df four_qc_lines SEC_Order [''P1''] \<noteq> []
   \<and> sum_list (map req_qty (filtered_df four_qc_lines SEC_Order [''P1''])) = 0
   \<and> map_sum id (map_option view_verdict) (show_push_to_production four_qc_lines SEC_Order [''P1''])
       = Inr (Some NotReady)"
  by (simp add: show_push_to_production_def filtered_df_def fulfillment_of_def qc_items_def
      gr_items_def missing_rows_def readiness_verdict_unassigned
      four_qc_lines_def demand_line_def Let_def numeral_Bit0 numeral_Bit1 replicate_add)

section \<open>The views leave the table unchanged\<close>

text \<open>
  Every object a view creates gets a new address and every write of a view goes to an
  object the view created itself, so the store a view starts from is a prefix of the
  store it ends with.
\<close>

lemma new_obj_prefix:
  "new_obj x s = (a, s') \<Longrightarrow> prefix s s' \<and> a = length s \<and> s' = s @ [x]"
  by (auto simp: new_obj_def)

lemma table_at_prefix:
  "prefix s s' \<Longrightarrow> a < length s \<Longrightarrow> table_at s' a = table_at s a"
  by (auto simp: table_at_def prefix_def nth_append)

lemma nth_prefix:
  "prefix s s' \<Longrightarrow> a < length s \<Longrightarrow> s' ! a = s ! a"
  by (auto simp: prefix_def nth_append)

lemma table_at_new:
  "table_at (s @ [Table rows]) (length s) = rows"
  "table_at (s @ [Sheet labels rows]) (length s) = rows"
  by (simp_all add: table_at_def)

lemma write_obj_prefix:
  "prefix s0 s \<Longrightarrow> length s0 \<le> a \<Longrightarrow> prefix s0 (write_obj a x s)"
  by (auto simp: write_obj_def prefix_def list_update_append)

lemma select_rows_eq:
  "select_rows keep a s = (length s, s @ [Table (filter keep (table_at s a))])"
  by (simp add: select_rows_def new_obj_def)

lemma copy_frame_eq:
  "copy_frame a s = (length s, s @ [Table (table_at s a)])"
  by (simp add: copy_frame_def new_obj_def)

lemma select_copy:
  assumes "select_rows keep a s = (b, s1)" "copy_frame b s1 = (c, s2)"
  shows "prefix s s2" "table_at s2 c = filter keep (table_at s a)" "c < length s2"
    "length s < length s2"
  using assms by (auto simp: select_rows_eq copy_frame_eq table_at_def nth_append)

lemma display_sheet_prefix:
  "display_sheet a columns labels s = (d, s') \<Longrightarrow> prefix s s'"
  by (auto simp: display_sheet_def new_obj_def Let_def write_obj_def prefix_def
      list_update_append split: prod.splits)

lemma bucket_st_prefix:
  "bucket_st keep columns labels rows s = (b, s') \<Longrightarrow> prefix s s'"
proof -
  assume a: "bucket_st keep columns labels rows s = (b, s')"
  obtain sel s1 where 1: "select_rows keep rows s = (sel, s1)" by fastforce
  obtain items s2 where 2: "copy_frame sel s1 = (items, s2)" by fastforce
  note p = select_copy[OF 1 2]
  show ?thesis
  proof (cases "table_at s2 items = []")
    case True
    then show ?thesis using a 1 2 p by (simp add: bucket_st_def)
  next
    case False
    obtain d s3 where 3: "display_sheet items columns labels s2 = (d, s3)" by fastforce
    then have "s' = s3" using a 1 2 False by (simp add: bucket_st_def)
    then show ?thesis using p(1) display_sheet_prefix[OF 3] by auto
  qed
qed

lemma allocate_bucket_st_prefix:
  "allocate_bucket_st selected rows s = (b, s') \<Longrightarrow> prefix s s'"
proof -
  assume a: "allocate_bucket_st selected rows s = (b, s')"
  let ?keep = "\<lambda>r. supply_type r = ''inventory'' \<and> source r \<noteq> ''free_stock''
                 \<and> \<not> (source r \<in> set (if selected \<noteq> [] then selected else []))"
  obtain sel s1 where 1: "select_rows ?keep rows s = (sel, s1)" by fastforce
  obtain items s2 where 2: "copy_frame sel s1 = (items, s2)" by fastforce
  note p = select_copy[OF 1 2]
  show ?thesis
  proof (cases "table_at s2 items = []")
    case True
    then show ?thesis using a 1 2 p by (simp add: allocate_bucket_st_def)
  next
    case False
    obtain d s3 where 3: "display_sheet items
                   [''item'', ''description'', ''allocated_qty'', ''SEC order'', ''source'', ''locater'']
                   [''Item Code'', ''Description'', ''Qty to Reallocate'', ''Project'',
                    ''Source Project'', ''Locater''] s2 = (d, s3)" by fastforce
    have d: "length s \<le> d"
      using 3 p(4) by (auto simp: display_sheet_def new_obj_def Let_def split: prod.splits)
    have "prefix s s3" using p(1) display_sheet_prefix[OF 3] by auto
    then have "prefix s (write_obj d (Sheet [''Item Code'', ''Description'', ''Qty to Reallocate'', ''Project'',
                         ''Source Project'', ''Locater'', ''Action Required'']
                    (table_at s3 d)) s3)"
      using d by (rule write_obj_prefix)
    then show ?thesis using a 1 2 3 False by (simp add: allocate_bucket_st_def)
  qed
qed

lemma calculate_project_status_st_prefix:
  "prefix s (snd (calculate_project_status_st df project s))"
  by (simp add: calculate_project_status_st_def select_rows_eq copy_frame_eq Let_def)

lemma select_rows_prefix:
  "select_rows keep a s = (b, s') \<Longrightarrow> prefix s s'"
  by (auto simp: select_rows_eq)

lemma calculate_project_status_st_result:
  assumes "df < length s"
  shows "fst (calculate_project_status_st df project s) = calculate_project_status (table_at s df) project"
proof -
  obtain sel s1 where 1: "select_rows (\<lambda>r. sec_order r = project) df s = (sel, s1)" by fastforce
  obtain pd s2 where 2: "copy_frame sel s1 = (pd, s2)" by fastforce
  note p = select_copy[OF 1 2]
  show ?thesis
  proof (cases "table_at s2 pd = []")
    case True
    then have "calculate_project_status (table_at s df) project = Inr None"
      using p(2) by (simp add: calculate_project_status_def project_rows_def)
    then show ?thesis using True 1 2 by (simp add: calculate_project_status_st_def)
  next
    case False
    obtain a3 s3 where 3: "select_rows (\<lambda>r. balance r = 0) pd s2 = (a3, s3)" by fastforce
    obtain a4 s4 where 4: "select_rows (\<lambda>r. sint (balance r) > 0 \<and> sint (allocated_qty r) > 0) pd s3 = (a4, s4)"
      by fastforce
    obtain a5 s5 where 5: "select_rows (\<lambda>r. allocated_qty r = 0) pd s4 = (a5, s5)" by fastforce
    obtain a6 s6 where 6: "select_rows (\<lambda>r. delay_ne_zero (delay r)) pd s5 = (a6, s6)" by fastforce
    have "prefix s s6"
      using p(1) select_rows_prefix[OF 3] select_rows_prefix[OF 4] select_rows_prefix[OF 5]
        select_rows_prefix[OF 6] by auto
    then have "table_at s6 df = table_at s df"
      using assms by (rule table_at_prefix)
    then show ?thesis using False 1 2 3 4 5 6 by (simp add: calculate_project_status_st_def)
  qed
qed

lemma material_inquiry_st_prefix:
  "prefix s (snd (material_inquiry_st df item_code s))"
  by (simp add: material_inquiry_st_def select_rows_eq copy_frame_eq Let_def)

lemma material_inquiry_st_result:
  assumes "df < length s"
  shows "fst (material_inquiry_st df item_code s) = material_inquiry (table_at s df) item_code"
proof -
  obtain sel s1 where 1: "select_rows (\<lambda>r. item r = item_code) df s = (sel, s1)" by fastforce
  obtain rows s2 where 2: "copy_frame sel s1 = (rows, s2)" by fastforce
  note p = select_copy[OF 1 2]
  show ?thesis
  proof (cases "table_at s2 rows = []")
    case True
    then have "material_inquiry (table_at s df) item_code = None"
      using p(2) by (simp add: material_inquiry_def)
    then show ?thesis using True 1 2 by (simp add: material_inquiry_st_def)
  next
    case False
    obtain a3 s3 where 3: "select_rows (\<lambda>r. supply_type r = ''QC'') rows s2 = (a3, s3)" by fastforce
    obtain a4 s4 where 4: "select_rows (\<lambda>r. supply_type r = ''GR_in_process'') rows s3 = (a4, s4)"
      by fastforce
    obtain a5 s5 where 5: "select_rows (\<lambda>r. supply_type r = ''PO'' \<and> delay r = Late) rows s4 = (a5, s5)"
      by fastforce
    obtain a6 s6 where 6: "select_rows (\<lambda>r. supply_type r = ''PR'') rows s5 = (a6, s6)" by fastforce
    have "prefix s s6"
      using p(1) select_rows_prefix[OF 3] select_rows_prefix[OF 4] select_rows_prefix[OF 5]
        select_rows_prefix[OF 6] by auto
    then have "table_at s6 df = table_at s df"
      using assms by (rule table_at_prefix)
    then show ?thesis using False 1 2 3 4 5 6 by (simp add: material_inquiry_st_def)
  qed
qed

lemma supplier_performance_st_both:
  "prefix s (snd (supplier_performance_st tie df s))
   \<and> (df < length s \<longrightarrow> fst (supplier_performance_st tie df s) = supplier_performance tie (table_at s df))"
proof -
  obtain sel s1 where 1: "select_rows (\<lambda>r. supplier r \<noteq> None) df s = (sel, s1)" by fastforce
  obtain sd s2 where 2: "copy_frame sel s1 = (sd, s2)" by fastforce
  note p = select_copy[OF 1 2]
  show ?thesis
  proof (cases "table_at s2 sd = []")
    case True
    then have "supplier_performance tie (table_at s df) = Inr None"
      using p(2) by (simp add: supplier_performance_def)
    then show ?thesis using True 1 2 p(1) by (simp add: supplier_performance_st_def)
  next
    case False
    obtain a3 s3 where 3: "select_rows (\<lambda>r. delay_ne_zero (delay r)) sd s2 = (a3, s3)" by fastforce
    obtain dl s4 where 4: "copy_frame a3 s3 = (dl, s4)" by fastforce
    note q = select_copy[OF 3 4]
    have ps4: "prefix s s4" using p(1) q(1) by auto
    have rows: "table_at s4 dl = filter (\<lambda>r. delay_ne_zero (delay r)) (filter (\<lambda>r. supplier r \<noteq> None) (table_at s df))"
      using q(2) p(2) by simp
    let ?rows = "table_at s4 dl"
    show ?thesis
    proof (cases "agg_groups (sort (remdups (List.map_filter supplier ?rows))) ?rows")
      case (Inl e)
      then have "supplier_performance tie (table_at s df) = Inl e"
        using False p(2) rows by (simp add: supplier_performance_def Let_def)
      then show ?thesis using False 1 2 3 4 Inl ps4 by (simp add: supplier_performance_st_def)
    next
      case (Inr agg)
      obtain st s5 where 5: "new_obj (Stats agg) s4 = (st, s5)" by fastforce
      then have st: "st = length s4" "prefix s4 s5" by (auto simp: new_obj_def)
      have "length s \<le> st" using st(1) ps4 by (auto simp: prefix_def)
      moreover have "prefix s s5" using ps4 st(2) by auto
      ultimately have ps6: "prefix s (write_obj st (Stats agg) s5)" by (simp add: write_obj_prefix)
      obtain so s7 where 7: "new_obj (Stats (sort_values_desc tie avg_delay_days agg)) (write_obj st (Stats agg) s5) = (so, s7)"
        by fastforce
      then have "prefix (write_obj st (Stats agg) s5) s7" by (auto simp: new_obj_def)
      then have ps7: "prefix s s7" using ps6 by auto
      then have "df < length s \<longrightarrow> table_at s7 df = table_at s df"
        by (simp add: table_at_prefix)
      then show ?thesis using False 1 2 3 4 5 7 Inr ps7
        by (simp add: supplier_performance_st_def)
    qed
  qed
qed

lemma status_loop_st_prefix:
  "prefix s (status_loop_st df projects s)"
proof (induction projects arbitrary: s)
  case Nil
  then show ?case by simp
next
  case (Cons p ps)
  obtain r s1 where 1: "calculate_project_status_st df p s = (r, s1)" by fastforce
  then have ps1: "prefix s s1"
    using calculate_project_status_st_prefix[of s df p] by simp
  show ?case
  proof (cases r)
    case (Inl e)
    then show ?thesis using 1 ps1 by simp
  next
    case (Inr info)
    then show ?thesis using 1 ps1 Cons.IH[of s1] by auto
  qed
qed

lemma production_readiness_st_both:
  "prefix s (snd (production_readiness_st tie df s))
   \<and> (df < length s \<longrightarrow> fst (production_readiness_st tie df s) = production_readiness tie (table_at s df))"
proof -
  let ?projects = "unique (map sec_order (table_at s df))"
  let ?s1 = "status_loop_st df ?projects s"
  have ps1: "prefix s ?s1" by (rule status_loop_st_prefix)
  have t1: "df < length s \<longrightarrow> table_at ?s1 df = table_at s df"
    using ps1 by (simp add: table_at_prefix)
  show ?thesis
  proof (cases "readiness_list (table_at ?s1 df) ?projects")
    case (Inl e)
    then show ?thesis using ps1 t1
      by (auto simp: production_readiness_st_def production_readiness_def Let_def)
  next
    case (Inr rows)
    obtain a2 s2 where 2: "new_obj (Ranking rows) ?s1 = (a2, s2)" by fastforce
    then have ps2: "prefix s s2" using ps1 by (auto simp: new_obj_def)
    show ?thesis
    proof (cases "rows = []")
      case True
      then show ?thesis using Inr 2 ps2 t1
        by (auto simp: production_readiness_st_def production_readiness_def Let_def)
    next
      case False
      obtain a3 s3 where 3: "new_obj (Ranking (sort_values_desc tie rr_fulfillment rows)) s2 = (a3, s3)"
        by fastforce
      then have ps3: "prefix s s3" using ps2 by (auto simp: new_obj_def)
      then have "df < length s \<longrightarrow> table_at s3 df = table_at s df"
        by (simp add: table_at_prefix)
      then show ?thesis using Inr 2 3 ps3 False
        by (simp add: production_readiness_st_def Let_def)
    qed
  qed
qed

lemma show_push_to_production_st_both:
  "prefix s (snd (show_push_to_production_st df ft selected s))
   \<and> (df < length s \<longrightarrow> fst (show_push_to_production_st df ft selected s)
         = show_push_to_production (table_at s df) ft selected)"
proof -
  obtain rows s1 where 1: "new_obj (Table (filtered_df (table_at s df) ft selected)) s = (rows, s1)"
    by fastforce
  then have ps1: "prefix s s1" and r: "table_at s1 rows = filtered_df (table_at s df) ft selected"
    by (auto simp: new_obj_def table_at_def)
  show ?thesis
  proof (cases "table_at s1 rows = [] \<or> selected = []")
    case True
    then have "show_push_to_production (table_at s df) ft selected = Inr None"
      using r by (auto simp: show_push_to_production_def Let_def)
    then show ?thesis using True 1 ps1 by (simp add: show_push_to_production_st_def)
  next
    case False
    obtain qc s2 where 2: "bucket_st (\<lambda>r. supply_type r = ''QC'')
                   [''item'', ''description'', ''allocated_qty'', ''locater'', ''supplier'',
                    ''availability_date'']
                   [''Item Code'', ''Description'', ''Qty in QC'', ''PO-Line'', ''Supplier'',
                    ''Received Date'']
                   rows s1 = (qc, s2)" by fastforce
    obtain gr s3 where 3: "bucket_st (\<lambda>r. supply_type r = ''GR_in_process'')
                   [''item'', ''description'', ''allocated_qty'', ''locater'', ''supplier'',
                    ''availability_date'']
                   [''Item Code'', ''Description'', ''Qty Pending GR'', ''PO-Line'', ''Supplier'',
                    ''Receipt Date'']
                   rows s2 = (gr, s3)" by fastforce
    obtain wip s4 where 4: "bucket_st (\<lambda>r. locater r = ''1-1-1-1'')
                   [''item'', ''description'', ''allocated_qty'', ''source'', ''locater'']
                   [''Item Code'', ''Description'', ''Available Qty'', ''Source Job'', ''Locater'']
                   rows s3 = (wip, s4)" by fastforce
    obtain al s5 where 5: "allocate_bucket_st selected rows s4 = (al, s5)" by fastforce
    obtain mi s6 where 6: "bucket_st (\<lambda>r. sint (balance r) > 0 \<and> allocated_qty r = 0)
                   [''item'', ''description'', ''req_qty'', ''balance'']
                   [''Item Code'', ''Description'', ''Required Qty'', ''Missing Qty'']
                   rows s5 = (mi, s6)" by fastforce
    have ps6: "prefix s s6"
      using ps1 bucket_st_prefix[OF 2] bucket_st_prefix[OF 3] bucket_st_prefix[OF 4]
        allocate_bucket_st_prefix[OF 5] bucket_st_prefix[OF 6] by auto
    then have t6: "df < length s \<longrightarrow> table_at s6 df = table_at s df"
      by (simp add: table_at_prefix)
    show ?thesis
    proof (cases "show_push_to_production (table_at s6 df) ft selected")
      case (Inl e)
      then show ?thesis using False 1 2 3 4 5 6 ps6 t6
        by (auto simp: show_push_to_production_st_def)
    next
      case (Inr view)
      have "prefix s (s6 @ [x])" for x using ps6 by auto
      then show ?thesis using Inr False 1 2 3 4 5 6 t6
        by (auto simp: show_push_to_production_st_def new_obj_def)
    qed
  qed
qed

text \<open>
  Claim C9: each derived view (project status, material inquiry, supplier performance,
  production readiness, push to production with its blocker lists) leaves the table it
  is given unchanged: the object at the table's address is the same after the view as
  before, and the view returns the value it computes from that table.
\<close>

theorem views_leave_table_unchanged:
  assumes "df < length s"
  shows "snd (calculate_project_status_st df project s) ! df = s ! df
     \<and> fst (calculate_project_status_st df project s) = calculate_project_status (table_at s df) project
     \<and> snd (material_inquiry_st df item_code s) ! df = s ! df
     \<and> fst (material_inquiry_st df item_code s) = material_inquiry (table_at s df) item_code
     \<and> snd (supplier_performance_st tie df s) ! df = s ! df
     \<and> fst (supplier_performance_st tie df s) = supplier_performance tie (table_at s df)
     \<and> snd (production_readiness_st tie' df s) ! df = s ! df
     \<and> fst (production_readiness_st tie' df s) = production_readiness tie' (table_at s df)
     \<and> snd (show_push_to_production_st df ft selected s) ! df = s ! df
     \<and> fst (show_push_to_production_st df ft selected s)
         = show_push_to_production (table_at s df) ft selected"
  using assms calculate_project_status_st_prefix[of s df project]
    calculate_project_status_st_result[of df s project]
    material_inquiry_st_prefix[of s df item_code] material_inquiry_st_result[of df s item_code]
    supplier_performance_st_both[of s tie df] production_readiness_st_both[of s tie' df]
    show_push_to_production_st_both[of s df ft selected]
  by (simp add: nth_prefix)

theorem views_leave_table_unchanged_witness:
  "snd (calculate_project_status_st 0 ''P1'' session_store) ! 0 = Table example_p1
   \<and> snd (material_inquiry_st 0 ''ITM1'' session_store) ! 0 = Table example_p1
   \<and> snd (supplier_performance_st (\<lambda>s. 0) 0 session_store) ! 0 = Table example_p1
   \<and> snd (production_readiness_st (\<lambda>s. 0) 0 session_store) ! 0 = Table example_p1
   \<and> snd (show_push_to_production_st 0 SEC_Order [''P1''] session_store) ! 0 = Table example_p1"
proof -
  have h: "0 < length session_store" by (simp add: session_store_def)
  have "session_store ! 0 = Table example_p1" by (simp add: session_store_def)
  then show ?thesis
    using views_leave_table_unchanged[OF h, where project = "''P1''" and item_code = "''ITM1''"
        and tie = "\<lambda>s. 0" and tie' = "\<lambda>s. 0" and ft = SEC_Order and selected = "[''P1'']"]
    by simp
qed

text \<open>The project status of the example table creates six frames beside the table.\<close>

lemma store_grows_example:
  "length (snd (calculate_project_status_st 0 ''P1'' session_store)) = 7"
  by (simp add: calculate_project_status_st_def select_rows_eq copy_frame_eq Let_def
      session_store_def table_at_def example_p1_def demand_line_def nth_append)

end
